theory Spec2Isabelle
  imports Main "HOL-Library.Word"
begin

section \<open>YAPF rail cost engine (yapf_costrail.hpp)\<close>

text \<open>
  A shallow embedding of \<^verbatim>\<open>CYapfCostRailT\<close>. The class is a template over the
  pathfinder, the track follower and the node type; none of those, nor the map accessors,
  are part of the file, so they enter the model as the fields of the record \<open>world\<close>
  (the read-only map, signal, reservation and vehicle queries) and as the records
  \<open>Node\<close>, \<open>CachedData\<close> and \<open>TrackFollower\<close> holding exactly the members the
  cost engine reads and writes.

  Integers. The look-ahead table is computed as \<^verbatim>\<open>p0 + i * (p1 + i * p2)\<close> with
  \<^verbatim>\<open>uint i\<close> and \<^verbatim>\<open>int\<close> coefficients, that is in 32-bit unsigned arithmetic,
  and stored as \<^verbatim>\<open>int\<close>; the ranges of the settings allow it to wrap, so an entry
  can be any 32-bit value and the wrap-around is written out (\<open>look_ahead_poly\<close>).
  \<^verbatim>\<open>SignalCost\<close> adds such entries and unsigned penalties to its \<^verbatim>\<open>int cost\<close>:
  every one of its assignments is reduced to 32 bits (\<open>int32\<close>). The accumulators of
  \<^verbatim>\<open>PfCalcCost\<close> (\<^verbatim>\<open>segment_cost\<close>, \<^verbatim>\<open>extra_cost\<close>, \<^verbatim>\<open>n.cost\<close>) are kept as
  the mathematical sums of what the code adds: there the model is the code for as long
  as the sums stay inside \<^verbatim>\<open>int\<close>, beyond which C++ leaves the behaviour undefined.
\<close>

subsection \<open>Tiles, trackdirs, signals\<close>

type_synonym TileIndex = nat
type_synonym Trackdir = nat
type_synonym Track = nat
type_synonym DiagDirection = nat

text \<open>Bit sets of tracks and trackdirs are kept as the increasing list of their members:
  \<^verbatim>\<open>KillFirstBit\<close> drops the head, \<^verbatim>\<open>FindFirstBit\<close> reads it.\<close>

type_synonym TrackdirBits = "Trackdir list"
type_synonym TrackBits = "Track list"

datatype TileType = MP_CLEAR | MP_RAILWAY | MP_ROAD | MP_HOUSE | MP_TREES | MP_STATION
  | MP_WATER | MP_VOID | MP_INDUSTRY | MP_TUNNELBRIDGE | MP_OBJECT

datatype SignalType = SIGTYPE_BLOCK | SIGTYPE_ENTRY | SIGTYPE_EXIT | SIGTYPE_COMBO
  | SIGTYPE_PBS | SIGTYPE_PBS_ONEWAY

datatype SignalState = SIGNAL_STATE_RED | SIGNAL_STATE_GREEN

fun IsPbsSignal :: "SignalType \<Rightarrow> bool" where
  "IsPbsSignal SIGTYPE_PBS = True"
| "IsPbsSignal SIGTYPE_PBS_ONEWAY = True"
| "IsPbsSignal _ = False"

datatype EndSegmentReason = DeadEnd | RailType | InfiniteLoop | SegmentTooLong
  | ChoiceFollows | Depot | Waypoint | Station | SafeTile
  | PathTooLong | FirstTwoWayRed | LookAheadEnd | TargetReached

type_synonym EndSegmentReasons = "EndSegmentReason set"

subsection \<open>Settings (pathfinding_settings.ini, pf.yapf.rail_*)\<close>

text \<open>\<^verbatim>\<open>SLE_UINT\<close> settings are \<open>nat\<close>, \<^verbatim>\<open>SLE_INT\<close> settings are \<open>int\<close>.\<close>

record YAPFSettings =
  rail_firstred_twoway_eol :: bool
  rail_firstred_penalty :: nat
  rail_firstred_exit_penalty :: nat
  rail_lastred_penalty :: nat
  rail_lastred_exit_penalty :: nat
  rail_station_penalty :: nat
  rail_slope_penalty :: nat
  rail_curve45_penalty :: nat
  rail_curve90_penalty :: nat
  rail_depot_reverse_penalty :: nat
  rail_crossing_penalty :: nat
  rail_look_ahead_max_signals :: nat
  rail_look_ahead_signal_p0 :: int
  rail_look_ahead_signal_p1 :: int
  rail_look_ahead_signal_p2 :: int
  rail_pbs_cross_penalty :: nat
  rail_pbs_station_penalty :: nat
  rail_pbs_signal_back_penalty :: nat
  rail_doubleslip_penalty :: nat
  rail_longer_platform_penalty :: nat
  rail_longer_platform_per_tile_penalty :: nat
  rail_shorter_platform_penalty :: nat
  rail_shorter_platform_per_tile_penalty :: nat

text \<open>Modelled from the spec: the base tile lengths of \<^verbatim>\<open>pathfinder_type.h\<close>, which
  is not among the sources. The spec has the base length cost "longer for diagonal
  trackdirs"; 100 and 71 are the values the settings table multiplies its defaults with.\<close>

definition YAPF_TILE_LENGTH :: int where
  "YAPF_TILE_LENGTH = 100"

definition YAPF_TILE_CORNER_LENGTH :: int where
  "YAPF_TILE_CORNER_LENGTH = 71"

text \<open>\<^verbatim>\<open>static constexpr int MAX_SEGMENT_COST = 10000\<close>.\<close>

definition MAX_SEGMENT_COST :: int where
  "MAX_SEGMENT_COST = 10000"

subsection \<open>Nodes and cached segments\<close>

text \<open>\<^verbatim>\<open>Node::CachedData\<close>: the segment shared through \<^verbatim>\<open>n.segment\<close>. A cost below zero
  means "not yet computed".\<close>

record CachedData =
  seg_cost :: int
  last_tile :: TileIndex
  last_td :: Trackdir
  last_signal_tile :: TileIndex
  last_signal_td :: Trackdir
  end_segment_reason :: EndSegmentReasons

text \<open>What \<^verbatim>\<open>PfCalcCost\<close> and \<^verbatim>\<open>CanUseGlobalCache\<close> read through \<^verbatim>\<open>n.parent\<close>.\<close>

record ParentNode =
  p_cost :: int
  p_last_tile :: TileIndex
  p_last_td :: Trackdir
  p_num_signals_passed :: nat

record Node =
  key_tile :: TileIndex
  key_td :: Trackdir
  parent :: "ParentNode option"
  cost :: int
  num_signals_passed :: nat
  last_signal_type :: SignalType
  last_red_signal_type :: SignalType
  target_seen :: bool
  choice_seen :: bool
  last_signal_was_red :: bool
  segment :: CachedData

text \<open>The members of the derived pathfinder that the cost engine writes:
  \<^verbatim>\<open>stopped_on_first_two_way_signal\<close>, and the keys handed to
  \<^verbatim>\<open>PruneIntermediateNodeBranch\<close>.\<close>

record Yapf =
  stopped_on_first_two_way_signal :: bool
  pruned :: "(TileIndex \<times> Trackdir) list"

text \<open>The protected members of \<^verbatim>\<open>CYapfCostRailT\<close>.\<close>

record CostRail =
  settings :: YAPFSettings
  max_cost :: int
  disable_cache :: bool
  sig_look_ahead_costs :: "int list"
  treat_first_red_two_way_signal_as_eol :: bool

subsection \<open>The map, follower and vehicle queries\<close>

datatype ErrorCode = EC_NONE | EC_OWNER | EC_RAIL_ROAD_TYPE | EC_90DEG | EC_NO_WAY | EC_RESERVED

text \<open>The members of a track follower that the cost engine reads after \<^verbatim>\<open>Follow\<close>;
  \<open>speed_limit_max\<close> and \<open>speed_limit_min\<close> are what \<^verbatim>\<open>GetSpeedLimit\<close> returns
  and writes through its pointer. The number of skipped tiles and the speeds, of the
  follower and of the vehicle, are \<^verbatim>\<open>int\<close> values that are never negative: they
  are naturals here.\<close>

record TrackFollower =
  new_tile :: TileIndex
  new_td_bits :: TrackdirBits
  tiles_skipped :: nat
  is_station :: bool
  err :: ErrorCode
  speed_limit_max :: nat
  speed_limit_min :: nat

record Train =
  cached_total_length :: nat
  display_max_speed :: nat
  order_is_goto_waypoint :: bool
  order_destination :: nat
  order_max_speed :: nat

text \<open>Everything the cost engine takes from outside the file: the constants and masks of
  the headers that are not among the sources, the static switches of the follower, the
  tile and track accessors, the followers, the destination policy and the vehicle.\<close>

record world =
  INVALID_TILE :: TileIndex
  INVALID_TRACKDIR :: Trackdir
  INVALID_RAILTYPE :: nat
  TILE_SIZE :: nat
  ESRF_POSSIBLE_TARGET :: EndSegmentReasons
  ESRF_CACHED_MASK :: EndSegmentReasons
  ESRF_ABORT_PF_MASK :: EndSegmentReasons
  Allow90degTurns :: bool
  DoTrackMasking :: bool
  GetTileType :: "TileIndex \<Rightarrow> TileType"
  GetTileRailType :: "TileIndex \<Rightarrow> nat"
  HasSignalOnTrackdir :: "TileIndex \<Rightarrow> Trackdir \<Rightarrow> bool"
  ReverseTrackdir :: "Trackdir \<Rightarrow> Trackdir"
  TrackdirToTrack :: "Trackdir \<Rightarrow> Track"
  IsOnewaySignal :: "TileIndex \<Rightarrow> Track \<Rightarrow> bool"
  GetSignalStateByTrackdir :: "TileIndex \<Rightarrow> Trackdir \<Rightarrow> SignalState"
  GetSignalType :: "TileIndex \<Rightarrow> Track \<Rightarrow> SignalType"
  IsValidTrackdir :: "Trackdir \<Rightarrow> bool"
  TrackdirCrossesTrackdirs :: "Trackdir \<Rightarrow> TrackdirBits"
  NextTrackdir :: "Trackdir \<Rightarrow> Trackdir"
  IsPlainRailTile :: "TileIndex \<Rightarrow> bool"
  GetTrackBits :: "TileIndex \<Rightarrow> TrackBits"
  DiagdirReachesTracks :: "DiagDirection \<Rightarrow> TrackBits"
  ReverseDiagDir :: "DiagDirection \<Rightarrow> DiagDirection"
  TrackdirToExitdir :: "Trackdir \<Rightarrow> DiagDirection"
  IsDiagonalTrackdir :: "Trackdir \<Rightarrow> bool"
  IsLevelCrossing :: "TileIndex \<Rightarrow> bool"
  stSlopeCost :: "TileIndex \<Rightarrow> Trackdir \<Rightarrow> bool"
  TileOffsByDiagDir :: "DiagDirection \<Rightarrow> int"
  HasStationReservation :: "TileIndex \<Rightarrow> bool"
  IsRailStationTile :: "TileIndex \<Rightarrow> bool"
  GetReservedTrackbits :: "TileIndex \<Rightarrow> TrackBits"
  TrackOverlapsTracks :: "TrackBits \<Rightarrow> Track \<Rightarrow> bool"
  IsRailDepot :: "TileIndex \<Rightarrow> bool"
  IsRailDepotTile :: "TileIndex \<Rightarrow> bool"
  IsRailWaypoint :: "TileIndex \<Rightarrow> bool"
  GetStationIndex :: "TileIndex \<Rightarrow> nat"
  WaypointIsSingleTile :: "nat \<Rightarrow> bool"
  Follow :: "TileIndex \<Rightarrow> Trackdir \<Rightarrow> bool \<times> TrackFollower"
  FollowRail :: "TileIndex \<Rightarrow> Trackdir \<Rightarrow> bool \<times> TrackFollower"
  IsSafeWaitingPosition :: "TileIndex \<Rightarrow> Trackdir \<Rightarrow> bool"
  IsWaitingPositionFree :: "TileIndex \<Rightarrow> Trackdir \<Rightarrow> bool"
  HasOnewaySignalBlockingTrackdir :: "TileIndex \<Rightarrow> Trackdir \<Rightarrow> bool"
  PfDetectDestination :: "TileIndex \<Rightarrow> Trackdir \<Rightarrow> bool"
  HasBaseStation :: "TileIndex \<Rightarrow> bool"
  GetPlatformLength :: "TileIndex \<Rightarrow> DiagDirection \<Rightarrow> nat"
  GetVehicle :: Train

text \<open>An assertion that fails ends the call; a walk that does not end within its fuel is
  reported as such.\<close>

datatype 'a result = Ok 'a | AssertionFailed | OutOfFuel

definition rbind :: "'a result \<Rightarrow> ('a \<Rightarrow> 'b result) \<Rightarrow> 'b result" where
  "rbind r f = (case r of Ok x \<Rightarrow> f x | AssertionFailed \<Rightarrow> AssertionFailed
                | OutOfFuel \<Rightarrow> OutOfFuel)"

definition assert :: "bool \<Rightarrow> 'a result \<Rightarrow> 'a result" where
  "assert b r = (if b then r else AssertionFailed)"

definition KillFirstBit :: "nat list \<Rightarrow> nat list" where
  "KillFirstBit bits = tl bits"

definition FindFirstBit :: "nat list \<Rightarrow> nat" where
  "FindFirstBit bits = (case bits of [] \<Rightarrow> 0 | b # _ \<Rightarrow> b)"

definition HasTrackdir :: "TrackdirBits \<Rightarrow> Trackdir \<Rightarrow> bool" where
  "HasTrackdir bits td \<longleftrightarrow> td \<in> set bits"

definition bits_and :: "nat list \<Rightarrow> nat list \<Rightarrow> nat list" where
  "bits_and a b = filter (\<lambda>x. x \<in> set b) a"

subsection \<open>The constructor: the look-ahead table\<close>

text \<open>\<^verbatim>\<open>p0 + i * (p1 + i * p2)\<close> with \<^verbatim>\<open>uint i\<close>: computed modulo \<open>2 ^ 32\<close> and stored
  as \<^verbatim>\<open>int\<close>.\<close>

definition look_ahead_poly :: "int \<Rightarrow> int \<Rightarrow> int \<Rightarrow> nat \<Rightarrow> int" where
  "look_ahead_poly p0 p1 p2 i =
     sint (word_of_int p0 + word_of_nat i * (word_of_int p1 + word_of_nat i * word_of_int p2)
           :: 32 word)"

text \<open>The look-ahead polynomial as the settings describe it, \<open>p0 + i * (p1 + i * p2)\<close>
  over the integers, for comparison with the table.\<close>

definition look_ahead_polynomial :: "YAPFSettings \<Rightarrow> nat \<Rightarrow> int" where
  "look_ahead_polynomial s i =
     rail_look_ahead_signal_p0 s
     + int i * (rail_look_ahead_signal_p1 s + int i * rail_look_ahead_signal_p2 s)"

definition CYapfCostRailT :: "YAPFSettings \<Rightarrow> CostRail" where
  "CYapfCostRailT s = \<lparr>
     settings = s,
     max_cost = 0,
     disable_cache = False,
     sig_look_ahead_costs =
       map (look_ahead_poly (rail_look_ahead_signal_p0 s) (rail_look_ahead_signal_p1 s)
              (rail_look_ahead_signal_p2 s))
           [0 ..< rail_look_ahead_max_signals s],
     treat_first_red_two_way_signal_as_eol = False \<rparr>"

definition SetTreatFirstRedTwoWaySignalAsEOL :: "bool \<Rightarrow> CostRail \<Rightarrow> CostRail" where
  "SetTreatFirstRedTwoWaySignalAsEOL enabled c =
     c\<lparr>treat_first_red_two_way_signal_as_eol := enabled\<rparr>"

definition TreatFirstRedTwoWaySignalAsEOL :: "CostRail \<Rightarrow> bool" where
  "TreatFirstRedTwoWaySignalAsEOL c \<longleftrightarrow>
     rail_firstred_twoway_eol (settings c) \<and> treat_first_red_two_way_signal_as_eol c"

definition SetMaxCost :: "int \<Rightarrow> CostRail \<Rightarrow> CostRail" where
  "SetMaxCost m c = c\<lparr>max_cost := m\<rparr>"

definition DisableCache :: "bool \<Rightarrow> CostRail \<Rightarrow> CostRail" where
  "DisableCache disable c = c\<lparr>disable_cache := disable\<rparr>"

subsection \<open>SignalCost\<close>

text \<open>\<^verbatim>\<open>look_ahead_cost\<close>: the table entry, or 0 past the table.\<close>

definition look_ahead_cost_of :: "CostRail \<Rightarrow> nat \<Rightarrow> int" where
  "look_ahead_cost_of c k =
     (if k < length (sig_look_ahead_costs c) then sig_look_ahead_costs c ! k else 0)"

text \<open>The \<^verbatim>\<open>switch (sig_type)\<close> inside \<^verbatim>\<open>if (n.num_signals_passed == 0)\<close>.\<close>

fun first_red_penalty :: "YAPFSettings \<Rightarrow> SignalType \<Rightarrow> int" where
  "first_red_penalty s SIGTYPE_COMBO = int (rail_firstred_exit_penalty s)"
| "first_red_penalty s SIGTYPE_EXIT = int (rail_firstred_exit_penalty s)"
| "first_red_penalty s SIGTYPE_BLOCK = int (rail_firstred_penalty s)"
| "first_red_penalty s SIGTYPE_ENTRY = int (rail_firstred_penalty s)"
| "first_red_penalty s _ = 0"

text \<open>The trailing \<^verbatim>\<open>if (has_signal_against && IsPbsSignal(...))\<close>, evaluated on the
  node as it is at that point.\<close>

definition pbs_signal_back :: "world \<Rightarrow> CostRail \<Rightarrow> Node \<Rightarrow> TileIndex \<Rightarrow> Trackdir \<Rightarrow> int" where
  "pbs_signal_back w c n tile trackdir =
     (if HasSignalOnTrackdir w tile (ReverseTrackdir w trackdir)
         \<and> IsPbsSignal (GetSignalType w tile (TrackdirToTrack w trackdir))
      then (if num_signals_passed n < rail_look_ahead_max_signals (settings c)
            then int (rail_pbs_signal_back_penalty (settings c)) else 0)
      else 0)"

text \<open>What an \<^verbatim>\<open>int\<close> holds after an operation whose mathematical result is \<open>k\<close>:
  \<open>k\<close> reduced modulo \<open>2 ^ 32\<close> into the range from \<open>- 2 ^ 31\<close> to \<open>2 ^ 31 - 1\<close>.
  For \<^verbatim>\<open>cost += x\<close> with an unsigned \<^verbatim>\<open>x\<close> this is the conversion the language
  defines. A signed overflow is undefined in C++; the only one \<^verbatim>\<open>SignalCost\<close> can
  meet is \<^verbatim>\<open>cost -= look_ahead_cost\<close> at the entry \<open>- 2 ^ 31\<close>, where the model has
  the two's-complement result.\<close>

definition int32 :: "int \<Rightarrow> int" where
  "int32 k = (k + 2147483648) mod 4294967296 - 2147483648"

text \<open>\<^verbatim>\<open>SignalCost(n, tile, trackdir)\<close> returns the cost together with the updated node
  (whose \<open>segment\<close> is \<^verbatim>\<open>*n.segment\<close>) and pathfinder.\<close>

definition SignalCost ::
  "world \<Rightarrow> CostRail \<Rightarrow> Yapf \<Rightarrow> Node \<Rightarrow> TileIndex \<Rightarrow> Trackdir \<Rightarrow> int \<times> Node \<times> Yapf" where
  "SignalCost w c y n tile trackdir =
     (if GetTileType w tile = MP_RAILWAY then
        (let has_signal_against = HasSignalOnTrackdir w tile (ReverseTrackdir w trackdir);
             has_signal_along = HasSignalOnTrackdir w tile trackdir
         in if has_signal_against \<and> \<not> has_signal_along
               \<and> IsOnewaySignal w tile (TrackdirToTrack w trackdir)
            then (0, n\<lparr>segment := (segment n)\<lparr>end_segment_reason :=
                          insert DeadEnd (end_segment_reason (segment n))\<rparr>\<rparr>, y)
            else if has_signal_along then
              (let sig_state = GetSignalStateByTrackdir w tile trackdir;
                   sig_type = GetSignalType w tile (TrackdirToTrack w trackdir);
                   n1 = n\<lparr>last_signal_type := sig_type\<rparr>;
                   look_ahead_cost = look_ahead_cost_of c (num_signals_passed n1)
               in if sig_state \<noteq> SIGNAL_STATE_RED then
                    (let n2 = n1\<lparr>last_signal_was_red := False\<rparr>;
                         cost = (if look_ahead_cost < 0 then int32 (0 - look_ahead_cost) else 0);
                         n3 = n2\<lparr>num_signals_passed := num_signals_passed n2 + 1,
                                 segment := (segment n2)\<lparr>last_signal_tile := tile,
                                                          last_signal_td := trackdir\<rparr>\<rparr>
                     in (int32 (cost + pbs_signal_back w c n3 tile trackdir), n3, y))
                  else if \<not> IsPbsSignal sig_type \<and> TreatFirstRedTwoWaySignalAsEOL c
                          \<and> choice_seen n1 \<and> has_signal_against \<and> num_signals_passed n1 = 0
                  then (- 1,
                        n1\<lparr>segment := (segment n1)\<lparr>end_segment_reason :=
                              insert DeadEnd (end_segment_reason (segment n1))\<rparr>\<rparr>,
                        y\<lparr>pruned := (key_tile n1, key_td n1) # pruned y,
                          stopped_on_first_two_way_signal := True\<rparr>)
                  else
                    (let n2 = n1\<lparr>last_red_signal_type := sig_type, last_signal_was_red := True\<rparr>;
                         cost1 = (if \<not> IsPbsSignal sig_type \<and> look_ahead_cost > 0
                                  then int32 (0 + look_ahead_cost) else 0);
                         cost2 = (if num_signals_passed n2 = 0
                                  then int32 (cost1 + first_red_penalty (settings c) sig_type)
                                  else cost1);
                         n3 = n2\<lparr>num_signals_passed := num_signals_passed n2 + 1,
                                 segment := (segment n2)\<lparr>last_signal_tile := tile,
                                                          last_signal_td := trackdir\<rparr>\<rparr>
                     in (int32 (cost2 + pbs_signal_back w c n3 tile trackdir), n3, y)))
            else (int32 (0 + pbs_signal_back w c n tile trackdir), n, y))
      else (0, n, y))"

subsection \<open>The per-tile costs\<close>

definition SlopeCost :: "world \<Rightarrow> CostRail \<Rightarrow> TileIndex \<Rightarrow> Trackdir \<Rightarrow> int" where
  "SlopeCost w c tile td =
     (if \<not> stSlopeCost w tile td then 0 else int (rail_slope_penalty (settings c)))"

definition CurveCost :: "world \<Rightarrow> CostRail \<Rightarrow> Trackdir \<Rightarrow> Trackdir \<Rightarrow> int result" where
  "CurveCost w c td1 td2 =
     assert (IsValidTrackdir w td1)
    (assert (IsValidTrackdir w td2)
    (Ok (if Allow90degTurns w \<and> HasTrackdir (TrackdirCrossesTrackdirs w td1) td2
         then int (rail_curve90_penalty (settings c))
         else if td2 \<noteq> NextTrackdir w td1
         then int (rail_curve45_penalty (settings c))
         else 0)))"

definition SwitchCost :: "world \<Rightarrow> CostRail \<Rightarrow> TileIndex \<Rightarrow> TileIndex \<Rightarrow> DiagDirection \<Rightarrow> int" where
  "SwitchCost w c tile1 tile2 exitdir =
     (if IsPlainRailTile w tile1 \<and> IsPlainRailTile w tile2 then
        (let t1 = KillFirstBit (bits_and (GetTrackBits w tile1)
                    (DiagdirReachesTracks w (ReverseDiagDir w exitdir))) \<noteq> [];
             t2 = KillFirstBit (bits_and (GetTrackBits w tile2)
                    (DiagdirReachesTracks w exitdir)) \<noteq> []
         in if t1 \<and> t2 then int (rail_doubleslip_penalty (settings c)) else 0)
      else 0)"

definition OneTileCost :: "world \<Rightarrow> CostRail \<Rightarrow> TileIndex \<Rightarrow> Trackdir \<Rightarrow> int" where
  "OneTileCost w c tile trackdir =
     (if IsDiagonalTrackdir w trackdir then
        (case GetTileType w tile of
           MP_ROAD \<Rightarrow> (if IsLevelCrossing w tile
                       then YAPF_TILE_LENGTH + int (rail_crossing_penalty (settings c))
                       else YAPF_TILE_LENGTH)
         | _ \<Rightarrow> YAPF_TILE_LENGTH)
      else YAPF_TILE_CORNER_LENGTH)"

text \<open>\<^verbatim>\<open>for (; skipped >= 0; skipped--, tile += diff)\<close>: \<open>k\<close> counts the
  \<^verbatim>\<open>skipped + 1\<close> passes that are left; a \<^verbatim>\<open>TileIndex\<close> is 32 bits wide.\<close>

fun station_tiles_reserved :: "world \<Rightarrow> int \<Rightarrow> nat \<Rightarrow> TileIndex \<Rightarrow> bool" where
  "station_tiles_reserved w diff 0 tile = False"
| "station_tiles_reserved w diff (Suc k) tile =
     (if HasStationReservation w tile then True
      else station_tiles_reserved w diff k (nat ((int tile + diff) mod 4294967296)))"

definition IsAnyStationTileReserved :: "world \<Rightarrow> TileIndex \<Rightarrow> Trackdir \<Rightarrow> nat \<Rightarrow> bool" where
  "IsAnyStationTileReserved w tile trackdir skipped =
     (let diff = TileOffsByDiagDir w (TrackdirToExitdir w (ReverseTrackdir w trackdir))
      in station_tiles_reserved w diff (skipped + 1) tile)"

definition ReservationCost ::
  "world \<Rightarrow> CostRail \<Rightarrow> Node \<Rightarrow> TileIndex \<Rightarrow> Trackdir \<Rightarrow> nat \<Rightarrow> int" where
  "ReservationCost w c n tile trackdir skipped =
     (if num_signals_passed n \<ge> length (sig_look_ahead_costs c) div 2 then 0
      else if \<not> IsPbsSignal (last_signal_type n) then 0
      else if IsRailStationTile w tile \<and> IsAnyStationTileReserved w tile trackdir skipped
      then int (rail_pbs_station_penalty (settings c)) * (int skipped + 1)
      else if TrackOverlapsTracks w (GetReservedTrackbits w tile) (TrackdirToTrack w trackdir)
      then (let cost0 = int (rail_pbs_cross_penalty (settings c));
                cost1 = (if \<not> IsDiagonalTrackdir w trackdir
                         then (cost0 * YAPF_TILE_CORNER_LENGTH) div YAPF_TILE_LENGTH
                         else cost0)
            in cost1 * (int skipped + 1))
      else 0)"

subsection \<open>PlatformLengthPenalty\<close>

text \<open>Modelled from the spec: \<^verbatim>\<open>CeilDiv\<close> of \<^verbatim>\<open>core/math_func.hpp\<close>, which is not
  among the sources: the vehicle length in whole tiles, rounded up.\<close>

definition CeilDiv :: "nat \<Rightarrow> nat \<Rightarrow> nat" where
  "CeilDiv a b = (a + b - 1) div b"

text \<open>The vehicle pointer is never null and always a train here (the first two
  assertions); the third assertion is the one an input can fail.\<close>

definition PlatformLengthPenalty :: "world \<Rightarrow> CostRail \<Rightarrow> int \<Rightarrow> int result" where
  "PlatformLengthPenalty w c platform_length =
     (let v = GetVehicle w in
      assert (cached_total_length v \<noteq> 0)
       (let missing_platform_length =
              int (CeilDiv (cached_total_length v) (TILE_SIZE w)) - platform_length
        in Ok (if missing_platform_length < 0 then
                 int (rail_longer_platform_penalty (settings c))
                 + int (rail_longer_platform_per_tile_penalty (settings c))
                   * (- missing_platform_length)
               else if missing_platform_length > 0 then
                 int (rail_shorter_platform_penalty (settings c))
                 + int (rail_shorter_platform_per_tile_penalty (settings c))
                   * missing_platform_length
               else 0)))"

subsection \<open>The segment cache hooks\<close>

definition CanUseGlobalCache :: "CostRail \<Rightarrow> Node \<Rightarrow> bool" where
  "CanUseGlobalCache c n \<longleftrightarrow>
     \<not> disable_cache c
     \<and> (case parent n of None \<Rightarrow> False
         | Some p \<Rightarrow> p_num_signals_passed p \<ge> length (sig_look_ahead_costs c))"

definition ConnectNodeToCachedData :: "Node \<Rightarrow> CachedData \<Rightarrow> Node" where
  "ConnectNodeToCachedData n ci =
     (if seg_cost ci < 0
      then n\<lparr>segment := ci\<lparr>last_tile := key_tile n, last_td := key_td n\<rparr>\<rparr>
      else n\<lparr>segment := ci\<rparr>)"

subsection \<open>PfCalcCost: the locals\<close>

text \<open>\<^verbatim>\<open>struct TILE\<close> and its two constructors.\<close>

record TILE =
  t_tile :: TileIndex
  t_td :: Trackdir
  t_tile_type :: TileType
  t_rail_type :: nat

definition TILE_invalid :: "world \<Rightarrow> TILE" where
  "TILE_invalid w = \<lparr> t_tile = INVALID_TILE w, t_td = INVALID_TRACKDIR w,
                      t_tile_type = MP_VOID, t_rail_type = INVALID_RAILTYPE w \<rparr>"

definition TILE_at :: "world \<Rightarrow> TileIndex \<Rightarrow> Trackdir \<Rightarrow> TILE" where
  "TILE_at w tile td = \<lparr> t_tile = tile, t_td = td,
                         t_tile_type = GetTileType w tile, t_rail_type = GetTileRailType w tile \<rparr>"

text \<open>The locals of \<^verbatim>\<open>PfCalcCost\<close> that live across the loop, with the node (and
  through it the segment) and the pathfinder; \<open>ws_tf\<close> is what \<^verbatim>\<open>tf\<close> points to.\<close>

record walk_state =
  ws_node :: Node
  ws_yapf :: Yapf
  ws_cur :: TILE
  ws_prev :: TILE
  ws_tf :: TrackFollower
  segment_entry_cost :: int
  segment_cost :: int
  extra_cost :: int
  ws_end_segment_reason :: EndSegmentReasons

subsection \<open>PfCalcCost: the head of the loop\<close>

text \<open>The block under "It is the right time now to look if we can reuse the cached
  segment cost".\<close>

definition use_cached_segment :: "world \<Rightarrow> walk_state \<Rightarrow> walk_state result" where
  "use_cached_segment w st =
     (let n = ws_node st;
          seg = segment n;
          st1 = st\<lparr>segment_cost := seg_cost seg,
                   ws_end_segment_reason := end_segment_reason seg\<rparr>
      in if last_signal_tile seg \<noteq> INVALID_TILE w then
           assert (HasSignalOnTrackdir w (last_signal_tile seg) (last_signal_td seg))
            (let is_red = (GetSignalStateByTrackdir w (last_signal_tile seg) (last_signal_td seg)
                           = SIGNAL_STATE_RED);
                 n1 = n\<lparr>last_signal_was_red := is_red\<rparr>;
                 n2 = (if is_red
                       then n1\<lparr>last_red_signal_type :=
                              GetSignalType w (last_signal_tile seg)
                                (TrackdirToTrack w (last_signal_td seg))\<rparr>
                       else n1)
             in Ok (st1\<lparr>ws_node := n2,
                        ws_cur := TILE_at w (last_tile seg) (last_td seg)\<rparr>))
         else Ok (st1\<lparr>ws_cur := TILE_at w (last_tile seg) (last_td seg)\<rparr>))"

text \<open>From \<^verbatim>\<open>for (;;) {\<close> to the label \<^verbatim>\<open>no_entry_cost\<close>. The flag returned is
  "left the loop" (the \<^verbatim>\<open>break\<close> of the cached branch).\<close>

definition enter_tile :: "world \<Rightarrow> CostRail \<Rightarrow> bool \<Rightarrow> walk_state \<Rightarrow> (bool \<times> walk_state) result" where
  "enter_tile w c is_cached_segment st =
     rbind (CurveCost w c (t_td (ws_prev st)) (t_td (ws_cur st))) (\<lambda>curve.
       let transition_cost = curve + SwitchCost w c (t_tile (ws_prev st)) (t_tile (ws_cur st))
                                       (TrackdirToExitdir w (t_td (ws_prev st)))
       in if segment_cost st = 0 then
            (let st1 = st\<lparr>segment_entry_cost := transition_cost\<rparr>
             in if is_cached_segment
                then rbind (use_cached_segment w st1) (\<lambda>st2. Ok (True, st2))
                else Ok (False, st1))
          else Ok (False, st\<lparr>segment_cost := segment_cost st + transition_cost\<rparr>))"

subsection \<open>PfCalcCost: one tile\<close>

text \<open>\<^verbatim>\<open>RemoveFirstTrackdir\<close>: the first trackdir of the set, or the invalid one.\<close>

definition RemoveFirstTrackdir :: "world \<Rightarrow> TrackdirBits \<Rightarrow> Trackdir" where
  "RemoveFirstTrackdir w bits = (case bits of [] \<Rightarrow> INVALID_TRACKDIR w | b # _ \<Rightarrow> b)"

text \<open>The \<^verbatim>\<open>while (ft.Follow(t, td))\<close> of the waypoint branch. The first argument is
  \<^verbatim>\<open>max_tiles\<close>, which starts at 20 and never reaches the loop as 0.\<close>

fun waypoint_scan ::
  "nat \<Rightarrow> world \<Rightarrow> TileIndex \<Rightarrow> TileIndex \<Rightarrow> Trackdir \<Rightarrow> (TileIndex \<times> Trackdir) result" where
  "waypoint_scan 0 w cur_tile t td = Ok (t, INVALID_TRACKDIR w)"
| "waypoint_scan (Suc max_tiles) w cur_tile t td =
     (let (ok, ft) = FollowRail w t td
      in if \<not> ok then Ok (t, td)
         else assert (t \<noteq> new_tile ft)
           (let t1 = new_tile ft
            in if t1 = cur_tile \<or> max_tiles = 0 then Ok (t1, INVALID_TRACKDIR w)
               else if KillFirstBit (new_td_bits ft) \<noteq> [] then Ok (t1, INVALID_TRACKDIR w)
               else (let td1 = RemoveFirstTrackdir w (new_td_bits ft)
                     in if IsSafeWaitingPosition w t1 td1 then Ok (t1, td1)
                        else waypoint_scan max_tiles w cur_tile t1 td1)))"

text \<open>"Tests for 'potential target' reasons to close the segment": from
  \<^verbatim>\<open>if (cur.tile == prev.tile)\<close> to the end of that chain. Takes and returns
  \<^verbatim>\<open>segment_cost\<close>, \<^verbatim>\<open>extra_cost\<close> and \<^verbatim>\<open>end_segment_reason\<close>.\<close>

definition potential_target ::
  "world \<Rightarrow> CostRail \<Rightarrow> TILE \<Rightarrow> TILE \<Rightarrow> TrackFollower
     \<Rightarrow> int \<times> int \<times> EndSegmentReasons \<Rightarrow> (int \<times> int \<times> EndSegmentReasons) result" where
  "potential_target w c cur prev tf acc =
     (let (sc, ec, esr) = acc; v = GetVehicle w
      in if t_tile cur = t_tile prev then
           assert (IsRailDepot w (t_tile cur))
             (Ok (sc + int (rail_depot_reverse_penalty (settings c)), ec, esr))
         else if IsRailDepotTile w (t_tile cur) then
           Ok (sc, ec, insert Depot esr)
         else if t_tile_type cur = MP_STATION \<and> IsRailWaypoint w (t_tile cur) then
           (if order_is_goto_waypoint v
               \<and> GetStationIndex w (t_tile cur) = order_destination v
               \<and> \<not> WaypointIsSingleTile w (order_destination v)
            then rbind (waypoint_scan 20 w (t_tile cur) (t_tile cur) (t_td cur)) (\<lambda>(t, td).
                   Ok (sc,
                       (if td = INVALID_TRACKDIR w
                           \<or> \<not> IsSafeWaitingPosition w t td
                           \<or> \<not> IsWaitingPositionFree w t td
                        then ec + int (rail_lastred_penalty (settings c)) else ec),
                       insert Waypoint esr))
            else Ok (sc, ec, insert Waypoint esr))
         else if is_station tf then
           (let platform_length = tiles_skipped tf + 1
            in Ok (sc + int (rail_station_penalty (settings c) * platform_length), ec,
                   insert Station esr))
         else if DoTrackMasking w \<and> t_tile_type cur = MP_RAILWAY then
           Ok (sc, ec,
               (if HasSignalOnTrackdir w (t_tile cur) (t_td cur)
                   \<and> \<not> IsPbsSignal (GetSignalType w (t_tile cur) (TrackdirToTrack w (t_td cur)))
                then insert SafeTile esr else esr))
         else Ok (sc, ec, esr))"

text \<open>"Apply min/max speed penalties only when inside the look-ahead radius": the amount
  added to \<^verbatim>\<open>extra_cost\<close>. The operands are non-negative, so the C++ division is
  \<open>div\<close>.\<close>

definition speed_limit_penalty :: "world \<Rightarrow> CostRail \<Rightarrow> Node \<Rightarrow> TrackFollower \<Rightarrow> int" where
  "speed_limit_penalty w c n tf =
     (if num_signals_passed n < length (sig_look_ahead_costs c) then
        (let v = GetVehicle w;
             min_speed = int (speed_limit_min tf);
             max_speed = int (speed_limit_max tf);
             max_veh_speed = min (int (display_max_speed v)) (int (order_max_speed v))
         in (if max_speed < max_veh_speed
             then (YAPF_TILE_LENGTH * (max_veh_speed - max_speed) * (4 + int (tiles_skipped tf)))
                    div max_veh_speed
             else 0)
          + (if min_speed > max_veh_speed
             then YAPF_TILE_LENGTH * (min_speed - max_veh_speed) else 0))
      else 0)"

text \<open>From "Move to the next tile/trackdir" to the end of the loop body, on the
  follower \<open>tfl\<close> after \<^verbatim>\<open>tf_local.Follow(cur.tile, cur.td)\<close> returned \<open>ok\<close>.
  The result is \<^verbatim>\<open>extra_cost\<close>, \<^verbatim>\<open>end_segment_reason\<close> and, when the loop goes on,
  the next tile.\<close>

definition next_tile ::
  "world \<Rightarrow> CostRail \<Rightarrow> Node \<Rightarrow> TILE \<Rightarrow> bool \<Rightarrow> TrackFollower \<Rightarrow> int \<Rightarrow> int
     \<Rightarrow> EndSegmentReasons \<Rightarrow> (int \<times> EndSegmentReasons \<times> TILE option) result" where
  "next_tile w c n cur ok tfl sc ec esr =
     (if \<not> ok then
        assert (err tfl \<noteq> EC_NONE)
          (let esr1 = (if err tfl = EC_RAIL_ROAD_TYPE then insert RailType esr
                       else insert DeadEnd esr);
               esr2 = (if DoTrackMasking w
                          \<and> \<not> HasOnewaySignalBlockingTrackdir w (t_tile cur) (t_td cur)
                       then insert SafeTile esr1 else esr1)
           in Ok (ec, esr2, None))
      else if KillFirstBit (new_td_bits tfl) \<noteq> [] then
        Ok (ec, insert ChoiceFollows esr, None)
      else
        (let nxt = TILE_at w (new_tile tfl) (FindFirstBit (new_td_bits tfl));
             (ec1, esr1) =
               (if DoTrackMasking w \<and> GetTileType w (t_tile nxt) = MP_RAILWAY then
                  (if HasSignalOnTrackdir w (t_tile nxt) (t_td nxt)
                      \<and> IsPbsSignal (GetSignalType w (t_tile nxt) (TrackdirToTrack w (t_td nxt)))
                   then (ec, insert SafeTile esr)
                   else if HasSignalOnTrackdir w (t_tile nxt) (ReverseTrackdir w (t_td nxt))
                      \<and> GetSignalType w (t_tile nxt) (TrackdirToTrack w (t_td nxt))
                          = SIGTYPE_PBS_ONEWAY
                   then (ec + int (rail_lastred_exit_penalty (settings c)),
                         insert SafeTile (insert DeadEnd esr))
                   else (ec, esr))
                else (ec, esr))
         in if t_rail_type nxt \<noteq> t_rail_type cur then Ok (ec1, insert RailType esr1, None)
            else if t_tile nxt = key_tile n \<and> t_td nxt = key_td n
            then Ok (ec1, insert InfiniteLoop esr1, None)
            else if sc > MAX_SEGMENT_COST \<and> GetTileType w (new_tile tfl) = MP_RAILWAY
            then Ok (ec1, insert SegmentTooLong esr1, None)
            else if esr1 \<noteq> {} then Ok (ec1, esr1, None)
            else Ok (ec1, esr1, Some nxt)))"

text \<open>The loop body from the label \<^verbatim>\<open>no_entry_cost\<close> to the closing brace. The flag
  returned is "left the loop".\<close>

definition walk_tile ::
  "world \<Rightarrow> CostRail \<Rightarrow> int \<Rightarrow> walk_state \<Rightarrow> (bool \<times> walk_state) result" where
  "walk_tile w c parent_cost st =
     (let cur = ws_cur st; prev = ws_prev st; tf = ws_tf st;
          sc1 = segment_cost st + OneTileCost w c (t_tile cur) (t_td cur);
          sc2 = sc1 + YAPF_TILE_LENGTH * int (tiles_skipped tf);
          sc3 = sc2 + SlopeCost w c (t_tile cur) (t_td cur);
          (sigc, n1, y1) = SignalCost w c (ws_yapf st) (ws_node st) (t_tile cur) (t_td cur);
          sc4 = sc3 + sigc;
          sc5 = sc4 + ReservationCost w c n1 (t_tile cur) (t_td cur) (tiles_skipped tf)
      in rbind (potential_target w c cur prev tf
                  (sc5, extra_cost st, end_segment_reason (segment n1))) (\<lambda>(sc6, ec1, esr1).
           let ec2 = ec1 + speed_limit_penalty w c n1 tf;
               esr2 = (if max_cost c > 0
                          \<and> parent_cost + segment_entry_cost st + sc6 > max_cost c
                       then insert PathTooLong esr1 else esr1);
               (ok, tfl) = Follow w (t_tile cur) (t_td cur)
           in rbind (next_tile w c n1 cur ok tfl sc6 ec2 esr2) (\<lambda>(ec3, esr3, nxt).
                let st1 = st\<lparr>ws_node := n1, ws_yapf := y1, ws_tf := tfl,
                             segment_cost := sc6, extra_cost := ec3,
                             ws_end_segment_reason := esr3\<rparr>
                in (case nxt of
                      None \<Rightarrow> Ok (True, st1)
                    | Some t \<Rightarrow> Ok (False, st1\<lparr>ws_prev := cur, ws_cur := t\<rparr>)))))"

subsection \<open>PfCalcCost: the loop and what follows it\<close>

text \<open>The \<^verbatim>\<open>for (;;)\<close> entered at \<^verbatim>\<open>no_entry_cost\<close>; every pass over a tile
  costs one unit of fuel.\<close>

fun walk :: "nat \<Rightarrow> world \<Rightarrow> CostRail \<Rightarrow> int \<Rightarrow> bool \<Rightarrow> walk_state \<Rightarrow> walk_state result" where
  "walk 0 w c parent_cost is_cached_segment st = OutOfFuel"
| "walk (Suc fuel) w c parent_cost is_cached_segment st =
     rbind (walk_tile w c parent_cost st) (\<lambda>(left, st1).
       if left then Ok st1
       else rbind (enter_tile w c is_cached_segment st1) (\<lambda>(left2, st2).
              if left2 then Ok st2
              else walk fuel w c parent_cost is_cached_segment st2))"

text \<open>"Last-red and last-red-exit penalties".\<close>

definition last_red_penalty :: "CostRail \<Rightarrow> Node \<Rightarrow> int" where
  "last_red_penalty c n =
     (if last_signal_was_red n then
        (if last_red_signal_type n = SIGTYPE_EXIT
         then int (rail_lastred_exit_penalty (settings c))
         else if \<not> IsPbsSignal (last_red_signal_type n)
         then int (rail_lastred_penalty (settings c))
         else 0)
      else 0)"

text \<open>The platform length read at the node's last tile, under "Station platform-length
  penalty".\<close>

definition target_platform_length :: "world \<Rightarrow> Node \<Rightarrow> nat" where
  "target_platform_length w n =
     GetPlatformLength w (last_tile (segment n))
       (ReverseDiagDir w (TrackdirToExitdir w (last_td (segment n))))"

text \<open>Everything after the loop. The result is the value returned and the locals as they
  are on return, with the node in \<open>ws_node\<close>.\<close>

definition finish ::
  "world \<Rightarrow> CostRail \<Rightarrow> int \<Rightarrow> bool \<Rightarrow> walk_state \<Rightarrow> (bool \<times> walk_state) result" where
  "finish w c parent_cost is_cached_segment st =
     (let esr = ws_end_segment_reason st; cur = ws_cur st
      in if PathTooLong \<in> esr then Ok (False, st)
         else
          (let target = (esr \<inter> ESRF_POSSIBLE_TARGET w \<noteq> {}
                         \<and> PfDetectDestination w (t_tile cur) (t_td cur));
               n0 = ws_node st;
               n1 = (if \<not> is_cached_segment
                     then n0\<lparr>segment := (segment n0)\<lparr>
                            seg_cost := segment_cost st,
                            end_segment_reason := esr \<inter> ESRF_CACHED_MASK w,
                            last_tile := t_tile cur,
                            last_td := t_td cur\<rparr>\<rparr>
                     else n0)
           in if \<not> target \<and> esr \<inter> ESRF_ABORT_PF_MASK w \<noteq> {}
              then Ok (False, st\<lparr>ws_node := n1\<rparr>)
              else
               rbind
                 (if target then
                    (let n2 = n1\<lparr>target_seen := True\<rparr>;
                         ec1 = extra_cost st + last_red_penalty c n2
                     in if Station \<in> esr then
                          assert (HasBaseStation w (last_tile (segment n2)))
                            (let platform_length = target_platform_length w n2;
                                 ec2 = ec1 - int (rail_station_penalty (settings c)
                                                   * platform_length)
                             in rbind (PlatformLengthPenalty w c (int platform_length))
                                  (\<lambda>pen. Ok (n2, ec2 + pen)))
                        else Ok (n2, ec1))
                  else Ok (n1, extra_cost st))
                 (\<lambda>(n3, ec3).
                    Ok (True, st\<lparr>extra_cost := ec3,
                                 ws_node := n3\<lparr>cost := parent_cost + segment_entry_cost st
                                                         + segment_cost st + ec3\<rparr>\<rparr>))))"

definition PfCalcCost ::
  "nat \<Rightarrow> world \<Rightarrow> CostRail \<Rightarrow> Yapf \<Rightarrow> Node \<Rightarrow> TrackFollower \<Rightarrow> (bool \<times> walk_state) result" where
  "PfCalcCost fuel w c y n tf =
     assert (\<not> target_seen n)
    (assert (new_tile tf = key_tile n)
    (assert (HasTrackdir (new_td_bits tf) (key_td n))
    (let has_parent = (parent n \<noteq> None);
         is_cached_segment = (seg_cost (segment n) \<ge> 0);
         parent_cost = (case parent n of None \<Rightarrow> 0 | Some p \<Rightarrow> p_cost p);
         st0 = \<lparr> ws_node = n, ws_yapf = y,
                 ws_cur = TILE_at w (key_tile n) (key_td n),
                 ws_prev = (case parent n of None \<Rightarrow> TILE_invalid w
                            | Some p \<Rightarrow> TILE_at w (p_last_tile p) (p_last_td p)),
                 ws_tf = tf,
                 segment_entry_cost = 0, segment_cost = 0, extra_cost = 0,
                 ws_end_segment_reason = {} \<rparr>
     in rbind
          (if \<not> has_parent
           then assert (\<not> is_cached_segment) (walk fuel w c parent_cost is_cached_segment st0)
           else rbind (enter_tile w c is_cached_segment st0) (\<lambda>(left, st1).
                  if left then Ok st1
                  else walk fuel w c parent_cost is_cached_segment st1))
          (finish w c parent_cost is_cached_segment))))"

subsection \<open>The cost engine as the pathfinders set it up\<close>

text \<open>The members are protected: a cost engine is what the constructor builds, changed
  only through \<^verbatim>\<open>SetMaxCost\<close>, \<^verbatim>\<open>DisableCache\<close> and
  \<^verbatim>\<open>SetTreatFirstRedTwoWaySignalAsEOL\<close>.\<close>

definition configure :: "YAPFSettings \<Rightarrow> int \<Rightarrow> bool \<Rightarrow> bool \<Rightarrow> CostRail" where
  "configure s m d e =
     DisableCache d (SetMaxCost m (SetTreatFirstRedTwoWaySignalAsEOL e (CYapfCostRailT s)))"

text \<open>The defaults of the settings table.\<close>

definition default_settings :: YAPFSettings where
  "default_settings = \<lparr>
     rail_firstred_twoway_eol = True,
     rail_firstred_penalty = 1000,
     rail_firstred_exit_penalty = 10000,
     rail_lastred_penalty = 1000,
     rail_lastred_exit_penalty = 10000,
     rail_station_penalty = 1000,
     rail_slope_penalty = 200,
     rail_curve45_penalty = 100,
     rail_curve90_penalty = 600,
     rail_depot_reverse_penalty = 5000,
     rail_crossing_penalty = 300,
     rail_look_ahead_max_signals = 10,
     rail_look_ahead_signal_p0 = 500,
     rail_look_ahead_signal_p1 = - 100,
     rail_look_ahead_signal_p2 = 5,
     rail_pbs_cross_penalty = 300,
     rail_pbs_station_penalty = 800,
     rail_pbs_signal_back_penalty = 1500,
     rail_doubleslip_penalty = 100,
     rail_longer_platform_penalty = 800,
     rail_longer_platform_per_tile_penalty = 0,
     rail_shorter_platform_penalty = 4000,
     rail_shorter_platform_per_tile_penalty = 0 \<rparr>"

subsection \<open>Example maps\<close>

text \<open>A follower that found no way on, one that stepped to a plain tile, a train of 72
  length units (five tiles of 16).\<close>

definition no_way :: TrackFollower where
  "no_way = \<lparr> new_tile = 0, new_td_bits = [], tiles_skipped = 0, is_station = False,
              err = EC_NO_WAY, speed_limit_max = 2147483647, speed_limit_min = 0 \<rparr>"

definition step_to :: "TileIndex \<Rightarrow> TrackFollower" where
  "step_to t = \<lparr> new_tile = t, new_td_bits = [0], tiles_skipped = 0, is_station = False,
                 err = EC_NONE, speed_limit_max = 2147483647, speed_limit_min = 0 \<rparr>"

definition a_train :: Train where
  "a_train = \<lparr> cached_total_length = 72, display_max_speed = 100,
               order_is_goto_waypoint = False, order_destination = 0, order_max_speed = 65535 \<rparr>"

text \<open>A straight line of plain track along trackdir 0: tiles 10 and 11, then a depot on
  tile 12, which is the destination and where the track ends. No signals.\<close>

definition line_world :: world where
  "line_world = \<lparr>
     INVALID_TILE = 4294967295, INVALID_TRACKDIR = 255, INVALID_RAILTYPE = 255, TILE_SIZE = 16,
     ESRF_POSSIBLE_TARGET = {Depot, Waypoint, Station, SafeTile},
     ESRF_CACHED_MASK = {DeadEnd, RailType, InfiniteLoop, SegmentTooLong, ChoiceFollows,
                         Depot, Waypoint, Station, SafeTile},
     ESRF_ABORT_PF_MASK = {DeadEnd, PathTooLong, InfiniteLoop, FirstTwoWayRed},
     Allow90degTurns = False, DoTrackMasking = False,
     GetTileType = (\<lambda>t. MP_RAILWAY), GetTileRailType = (\<lambda>t. 0),
     HasSignalOnTrackdir = (\<lambda>t td. False),
     ReverseTrackdir = (\<lambda>td. (td + 8) mod 16), TrackdirToTrack = (\<lambda>td. td mod 8),
     IsOnewaySignal = (\<lambda>t tr. False),
     GetSignalStateByTrackdir = (\<lambda>t td. SIGNAL_STATE_GREEN),
     GetSignalType = (\<lambda>t tr. SIGTYPE_BLOCK),
     IsValidTrackdir = (\<lambda>td. td < 14 \<and> td mod 8 < 6),
     TrackdirCrossesTrackdirs = (\<lambda>td. []), NextTrackdir = (\<lambda>td. td),
     IsPlainRailTile = (\<lambda>t. t \<noteq> 12), GetTrackBits = (\<lambda>t. [0]),
     DiagdirReachesTracks = (\<lambda>d. [0, 2, 4]), ReverseDiagDir = (\<lambda>d. (d + 2) mod 4),
     TrackdirToExitdir = (\<lambda>td. 0), IsDiagonalTrackdir = (\<lambda>td. td mod 8 < 2),
     IsLevelCrossing = (\<lambda>t. False), stSlopeCost = (\<lambda>t td. False),
     TileOffsByDiagDir = (\<lambda>d. - 1), HasStationReservation = (\<lambda>t. False),
     IsRailStationTile = (\<lambda>t. False), GetReservedTrackbits = (\<lambda>t. []),
     TrackOverlapsTracks = (\<lambda>b tr. False),
     IsRailDepot = (\<lambda>t. t = 12), IsRailDepotTile = (\<lambda>t. t = 12),
     IsRailWaypoint = (\<lambda>t. False), GetStationIndex = (\<lambda>t. 0),
     WaypointIsSingleTile = (\<lambda>i. False),
     Follow = (\<lambda>t td. if t < 12 then (True, step_to (t + 1)) else (False, no_way)),
     FollowRail = (\<lambda>t td. if t < 12 then (True, step_to (t + 1)) else (False, no_way)),
     IsSafeWaitingPosition = (\<lambda>t td. False), IsWaitingPositionFree = (\<lambda>t td. False),
     HasOnewaySignalBlockingTrackdir = (\<lambda>t td. False),
     PfDetectDestination = (\<lambda>t td. t = 12),
     HasBaseStation = (\<lambda>t. False), GetPlatformLength = (\<lambda>t d. 0),
     GetVehicle = a_train \<rparr>"

text \<open>The same line with a signal on tile 11: along the travel direction (trackdir 0),
  against it (trackdir 8), or both.\<close>

definition signal_world :: "bool \<Rightarrow> bool \<Rightarrow> bool \<Rightarrow> SignalState \<Rightarrow> SignalType \<Rightarrow> world" where
  "signal_world along against oneway st ty = line_world\<lparr>
     HasSignalOnTrackdir := (\<lambda>t td. t = 11 \<and> (td = 0 \<and> along \<or> td = 8 \<and> against)),
     IsOnewaySignal := (\<lambda>t tr. oneway),
     GetSignalStateByTrackdir := (\<lambda>t td. st),
     GetSignalType := (\<lambda>t tr. ty) \<rparr>"

text \<open>A segment not yet computed, a node on tile \<open>t\<close> whose parent ended on the tile
  before with cost \<open>pc\<close> and \<open>sigs\<close> signals passed, and a pathfinder.\<close>

definition fresh_segment :: "TileIndex \<Rightarrow> Trackdir \<Rightarrow> CachedData" where
  "fresh_segment t td = \<lparr> seg_cost = - 1, last_tile = t, last_td = td,
      last_signal_tile = 4294967295, last_signal_td = 255, end_segment_reason = {} \<rparr>"

definition a_node :: "TileIndex \<Rightarrow> int \<Rightarrow> nat \<Rightarrow> CachedData \<Rightarrow> Node" where
  "a_node t pc sigs seg = \<lparr> key_tile = t, key_td = 0,
      parent = Some \<lparr> p_cost = pc, p_last_tile = t - 1, p_last_td = 0,
                      p_num_signals_passed = sigs \<rparr>,
      cost = 0, num_signals_passed = sigs, last_signal_type = SIGTYPE_BLOCK,
      last_red_signal_type = SIGTYPE_BLOCK, target_seen = False, choice_seen = False,
      last_signal_was_red = False, segment = seg \<rparr>"

definition yapf0 :: Yapf where
  "yapf0 = \<lparr> stopped_on_first_two_way_signal = False, pruned = [] \<rparr>"

subsection \<open>Reading a result\<close>

text \<open>\<^verbatim>\<open>parent_cost\<close> as \<^verbatim>\<open>PfCalcCost\<close> computes it.\<close>

definition parent_cost_of :: "Node \<Rightarrow> int" where
  "parent_cost_of n = (case parent n of None \<Rightarrow> 0 | Some p \<Rightarrow> p_cost p)"

text \<open>What is read off a call that returned: the value returned, the node's cost, the
  segment entry cost, the segment cost, the extra cost and the end-segment reasons; and the
  segment the node points to afterwards.\<close>

definition outcome ::
  "(bool \<times> walk_state) result
     \<Rightarrow> (bool \<times> int \<times> int \<times> int \<times> int \<times> EndSegmentReason list) option" where
  "outcome r = (case r of
       Ok (b, st) \<Rightarrow> Some (b, cost (ws_node st), segment_entry_cost st, segment_cost st,
                           extra_cost st,
                           filter (\<lambda>x. x \<in> ws_end_segment_reason st)
                             [DeadEnd, RailType, InfiniteLoop, SegmentTooLong, ChoiceFollows,
                              Depot, Waypoint, Station, SafeTile, PathTooLong, FirstTwoWayRed,
                              LookAheadEnd, TargetReached])
     | _ \<Rightarrow> None)"

definition stored_segment :: "(bool \<times> walk_state) result \<Rightarrow> CachedData option" where
  "stored_segment r = (case r of Ok (b, st) \<Rightarrow> Some (segment (ws_node st)) | _ \<Rightarrow> None)"

subsection \<open>More example maps\<close>

text \<open>The segment of the line from tile 10 to the depot, as a walk stores it.\<close>

definition line_segment :: CachedData where
  "line_segment = \<lparr> seg_cost = 300, last_tile = 12, last_td = 0,
      last_signal_tile = 4294967295, last_signal_td = 255,
      end_segment_reason = {DeadEnd, Depot} \<rparr>"

text \<open>A station platform on tiles 8 to 12 (five tiles, the length of the train), plain
  track behind it; the station is the destination. A train standing on tile 11 follows the
  track into the last platform tile.\<close>

definition station_world :: world where
  "station_world = line_world\<lparr>
     GetTileType := (\<lambda>t. if 8 \<le> t \<and> t \<le> 12 then MP_STATION else MP_RAILWAY),
     IsPlainRailTile := (\<lambda>t. 12 < t),
     IsRailDepot := (\<lambda>t. False),
     IsRailDepotTile := (\<lambda>t. False),
     IsRailStationTile := (\<lambda>t. 8 \<le> t \<and> t \<le> 12),
     Follow := (\<lambda>t td. if t < 14 then (True, step_to (t + 1)) else (False, no_way)),
     HasBaseStation := (\<lambda>t. 8 \<le> t \<and> t \<le> 12),
     GetPlatformLength := (\<lambda>t d. 5) \<rparr>"

definition into_station :: TrackFollower where
  "into_station = \<lparr> new_tile = 12, new_td_bits = [0], tiles_skipped = 0, is_station = True,
                    err = EC_NONE, speed_limit_max = 2147483647, speed_limit_min = 0 \<rparr>"

text \<open>The same platform entered from the plain tile 7 before it: the follower skips four
  tiles to the last platform tile.\<close>

definition from_outside :: TrackFollower where
  "from_outside = \<lparr> new_tile = 12, new_td_bits = [0], tiles_skipped = 4, is_station = True,
                    err = EC_NONE, speed_limit_max = 2147483647, speed_limit_min = 0 \<rparr>"

definition outside_parent :: ParentNode where
  "outside_parent = \<lparr> p_cost = 5000, p_last_tile = 7, p_last_td = 0,
                      p_num_signals_passed = 0 \<rparr>"

text \<open>Settings inside the ranges of the settings table whose polynomial leaves 32 bits:
  \<open>p2 = - 1000000\<close> with a look-ahead of 100 signals.\<close>

definition steep_settings :: YAPFSettings where
  "steep_settings = default_settings\<lparr>
     rail_look_ahead_max_signals := 100,
     rail_look_ahead_signal_p0 := 0,
     rail_look_ahead_signal_p1 := 0,
     rail_look_ahead_signal_p2 := - 1000000 \<rparr>"

section \<open>Properties\<close>

subsection \<open>Evaluating the examples\<close>

lemma line_world_fields:
  "INVALID_TILE line_world = 4294967295"
  "INVALID_TRACKDIR line_world = 255"
  "INVALID_RAILTYPE line_world = 255"
  "TILE_SIZE line_world = 16"
  "ESRF_POSSIBLE_TARGET line_world = {Depot, Waypoint, Station, SafeTile}"
  "ESRF_CACHED_MASK line_world = {DeadEnd, RailType, InfiniteLoop, SegmentTooLong, ChoiceFollows, Depot, Waypoint, Station, SafeTile}"
  "ESRF_ABORT_PF_MASK line_world = {DeadEnd, PathTooLong, InfiniteLoop, FirstTwoWayRed}"
  "Allow90degTurns line_world = False"
  "DoTrackMasking line_world = False"
  "GetTileType line_world = (\<lambda>t. MP_RAILWAY)"
  "GetTileRailType line_world = (\<lambda>t. 0)"
  "HasSignalOnTrackdir line_world = (\<lambda>t td. False)"
  "ReverseTrackdir line_world = (\<lambda>td. (td + 8) mod 16)"
  "TrackdirToTrack line_world = (\<lambda>td. td mod 8)"
  "IsOnewaySignal line_world = (\<lambda>t tr. False)"
  "GetSignalStateByTrackdir line_world = (\<lambda>t td. SIGNAL_STATE_GREEN)"
  "GetSignalType line_world = (\<lambda>t tr. SIGTYPE_BLOCK)"
  "IsValidTrackdir line_world = (\<lambda>td. td < 14 \<and> td mod 8 < 6)"
  "TrackdirCrossesTrackdirs line_world = (\<lambda>td. [])"
  "NextTrackdir line_world = (\<lambda>td. td)"
  "IsPlainRailTile line_world = (\<lambda>t. t \<noteq> 12)"
  "GetTrackBits line_world = (\<lambda>t. [0])"
  "DiagdirReachesTracks line_world = (\<lambda>d. [0, 2, 4])"
  "ReverseDiagDir line_world = (\<lambda>d. (d + 2) mod 4)"
  "TrackdirToExitdir line_world = (\<lambda>td. 0)"
  "IsDiagonalTrackdir line_world = (\<lambda>td. td mod 8 < 2)"
  "IsLevelCrossing line_world = (\<lambda>t. False)"
  "stSlopeCost line_world = (\<lambda>t td. False)"
  "TileOffsByDiagDir line_world = (\<lambda>d. - 1)"
  "HasStationReservation line_world = (\<lambda>t. False)"
  "IsRailStationTile line_world = (\<lambda>t. False)"
  "GetReservedTrackbits line_world = (\<lambda>t. [])"
  "TrackOverlapsTracks line_world = (\<lambda>b tr. False)"
  "IsRailDepot line_world = (\<lambda>t. t = 12)"
  "IsRailDepotTile line_world = (\<lambda>t. t = 12)"
  "IsRailWaypoint line_world = (\<lambda>t. False)"
  "GetStationIndex line_world = (\<lambda>t. 0)"
  "WaypointIsSingleTile line_world = (\<lambda>i. False)"
  "Follow line_world = (\<lambda>t td. if t < 12 then (True, step_to (t + 1)) else (False, no_way))"
  "FollowRail line_world = (\<lambda>t td. if t < 12 then (True, step_to (t + 1)) else (False, no_way))"
  "IsSafeWaitingPosition line_world = (\<lambda>t td. False)"
  "IsWaitingPositionFree line_world = (\<lambda>t td. False)"
  "HasOnewaySignalBlockingTrackdir line_world = (\<lambda>t td. False)"
  "PfDetectDestination line_world = (\<lambda>t td. t = 12)"
  "HasBaseStation line_world = (\<lambda>t. False)"
  "GetPlatformLength line_world = (\<lambda>t d. 0)"
  "GetVehicle line_world = a_train"
  by (simp_all add: line_world_def)

lemma signal_world_fields:
  "GetTileType (signal_world along against oneway st ty) = (\<lambda>t. MP_RAILWAY)"
  "HasSignalOnTrackdir (signal_world along against oneway st ty)
     = (\<lambda>t td. t = 11 \<and> (td = 0 \<and> along \<or> td = 8 \<and> against))"
  "ReverseTrackdir (signal_world along against oneway st ty) = (\<lambda>td. (td + 8) mod 16)"
  "TrackdirToTrack (signal_world along against oneway st ty) = (\<lambda>td. td mod 8)"
  "IsOnewaySignal (signal_world along against oneway st ty) = (\<lambda>t tr. oneway)"
  "GetSignalStateByTrackdir (signal_world along against oneway st ty) = (\<lambda>t td. st)"
  "GetSignalType (signal_world along against oneway st ty) = (\<lambda>t tr. ty)"
  by (simp_all add: signal_world_def line_world_fields)

lemma configure_simps:
  "settings (configure s m d e) = s"
  "max_cost (configure s m d e) = m"
  "disable_cache (configure s m d e) = d"
  "treat_first_red_two_way_signal_as_eol (configure s m d e) = e"
  "length (sig_look_ahead_costs (configure s m d e)) = rail_look_ahead_max_signals s"
  by (simp_all add: configure_def DisableCache_def SetMaxCost_def
        SetTreatFirstRedTwoWaySignalAsEOL_def CYapfCostRailT_def)

lemma look_ahead_cost_of_configure:
  "look_ahead_cost_of (configure s m d e) i =
     (if i < rail_look_ahead_max_signals s
      then look_ahead_poly (rail_look_ahead_signal_p0 s) (rail_look_ahead_signal_p1 s)
             (rail_look_ahead_signal_p2 s) i
      else 0)"
  by (simp add: look_ahead_cost_of_def configure_def DisableCache_def SetMaxCost_def
        SetTreatFirstRedTwoWaySignalAsEOL_def CYapfCostRailT_def)

text \<open>Where the polynomial fits 32 bits, the table holds its mathematical value.\<close>

lemma look_ahead_poly_in_range:
  assumes "- (2 ^ 31) \<le> p0 + int i * (p1 + int i * p2)" "p0 + int i * (p1 + int i * p2) < 2 ^ 31"
  shows "look_ahead_poly p0 p1 p2 i = p0 + int i * (p1 + int i * p2)"
proof -
  have "(word_of_int p0 + word_of_nat i * (word_of_int p1 + word_of_nat i * word_of_int p2) :: 32 word)
        = word_of_int (p0 + int i * (p1 + int i * p2))"
    by simp
  then have "look_ahead_poly p0 p1 p2 i = signed_take_bit 31 (p0 + int i * (p1 + int i * p2))"
    unfolding look_ahead_poly_def by (simp only: sint_sbintrunc') simp
  also have "\<dots> = p0 + int i * (p1 + int i * p2)"
    using assms by (intro signed_take_bit_int_eq_self) simp_all
  finally show ?thesis .
qed

subsection \<open>32-bit values\<close>

lemma int32_id: "- (2 ^ 31) \<le> k \<Longrightarrow> k < 2 ^ 31 \<Longrightarrow> int32 k = k"
  by (simp add: int32_def)

lemma int32_range: "- (2 ^ 31) \<le> int32 k \<and> int32 k < 2 ^ 31"
  by (simp add: int32_def)

lemma int32_idem: "int32 (int32 k) = int32 k"
  using int32_range [of k] by (simp add: int32_id)

text \<open>Where the polynomial of the settings fits 32 bits, the table entry is its value.\<close>

lemma table_entry_in_range:
  assumes "i < rail_look_ahead_max_signals s \<longrightarrow>
             - (2 ^ 31) \<le> look_ahead_polynomial s i \<and> look_ahead_polynomial s i < 2 ^ 31"
  shows "look_ahead_cost_of (configure s m d e) i
           = (if i < rail_look_ahead_max_signals s then look_ahead_polynomial s i else 0)"
  using assms
  by (auto simp add: look_ahead_cost_of_configure look_ahead_polynomial_def
        intro!: look_ahead_poly_in_range)

lemma pbs_signal_back_nonneg: "0 \<le> pbs_signal_back w c n tile trackdir"
  by (simp add: pbs_signal_back_def)

text \<open>The two priced branches of \<open>SignalCost\<close>.\<close>

lemma SignalCost_not_red:
  assumes "GetTileType w tile = MP_RAILWAY"
    and "HasSignalOnTrackdir w tile trackdir"
    and "GetSignalStateByTrackdir w tile trackdir \<noteq> SIGNAL_STATE_RED"
  shows "fst (SignalCost w c y n tile trackdir) =
           int32 ((if look_ahead_cost_of c (num_signals_passed n) < 0
                   then int32 (- look_ahead_cost_of c (num_signals_passed n)) else 0)
                  + pbs_signal_back w c
                      (n\<lparr>num_signals_passed := num_signals_passed n + 1\<rparr>) tile trackdir)"
  using assms by (simp add: SignalCost_def Let_def pbs_signal_back_def)

lemma SignalCost_red:
  assumes "GetTileType w tile = MP_RAILWAY"
    and "HasSignalOnTrackdir w tile trackdir"
    and "GetSignalStateByTrackdir w tile trackdir = SIGNAL_STATE_RED"
    and "\<not> (TreatFirstRedTwoWaySignalAsEOL c \<and> choice_seen n
            \<and> HasSignalOnTrackdir w tile (ReverseTrackdir w trackdir)
            \<and> num_signals_passed n = 0)"
    and "\<not> IsPbsSignal (GetSignalType w tile (TrackdirToTrack w trackdir))"
  shows "fst (SignalCost w c y n tile trackdir) =
           int32 (if num_signals_passed n = 0
                  then int32 ((if 0 < look_ahead_cost_of c (num_signals_passed n)
                               then int32 (look_ahead_cost_of c (num_signals_passed n))
                               else 0)
                              + first_red_penalty (settings c)
                                  (GetSignalType w tile (TrackdirToTrack w trackdir)))
                  else (if 0 < look_ahead_cost_of c (num_signals_passed n)
                        then int32 (look_ahead_cost_of c (num_signals_passed n))
                        else 0))"
proof -
  have sb0: "pbs_signal_back w c n' tile trackdir = 0" for n'
    using assms(5) by (simp add: pbs_signal_back_def)
  show ?thesis
  proof (cases "num_signals_passed n = 0")
    case True
    with assms(4) have "\<not> (TreatFirstRedTwoWaySignalAsEOL c \<and> choice_seen n
            \<and> HasSignalOnTrackdir w tile (ReverseTrackdir w trackdir))" by simp
    then have ne: "(TreatFirstRedTwoWaySignalAsEOL c \<and> choice_seen n
            \<and> HasSignalOnTrackdir w tile (ReverseTrackdir w trackdir)) = False" by simp
    from True assms(1,2,3,5) show ?thesis
      by (simp add: SignalCost_def Let_def sb0 ne)
  next
    case False
    with assms(1,2,3,5) show ?thesis
      by (simp add: SignalCost_def Let_def sb0)
  qed
qed

text \<open>The steep settings: the entry for 50 signals.\<close>

lemma steep_settings_fields:
  "rail_look_ahead_max_signals steep_settings = 100"
  "rail_look_ahead_signal_p0 steep_settings = 0"
  "rail_look_ahead_signal_p1 steep_settings = 0"
  "rail_look_ahead_signal_p2 steep_settings = - 1000000"
  "rail_firstred_twoway_eol steep_settings = True"
  by (simp_all add: steep_settings_def default_settings_def)

lemma steep_table_50:
  "look_ahead_cost_of (configure steep_settings 0 False False) 50 = 1794967296"
  "sig_look_ahead_costs (configure steep_settings 0 False False) ! 50 = 1794967296"
proof -
  have "look_ahead_poly 0 0 (- 1000000) 50 = 1794967296"
    by (simp add: look_ahead_poly_def)
  then show "look_ahead_cost_of (configure steep_settings 0 False False) 50 = 1794967296"
    by (simp add: look_ahead_cost_of_configure steep_settings_fields)
  then show "sig_look_ahead_costs (configure steep_settings 0 False False) ! 50 = 1794967296"
    by (simp add: look_ahead_cost_of_def configure_simps steep_settings_fields)
qed

subsection \<open>SignalCost\<close>

text \<open>C9: on a railway tile with a signal on the reverse trackdir, none on the travel
  trackdir, and that signal one-way, \<open>SignalCost\<close> sets \<open>DeadEnd\<close> in the segment's
  end-segment reason; it adds no cost and changes nothing else.\<close>

theorem SignalCost_oneway_against:
  assumes "GetTileType w tile = MP_RAILWAY"
    and "HasSignalOnTrackdir w tile (ReverseTrackdir w trackdir)"
    and "\<not> HasSignalOnTrackdir w tile trackdir"
    and "IsOnewaySignal w tile (TrackdirToTrack w trackdir)"
  shows "SignalCost w c y n tile trackdir =
           (0, n\<lparr>segment := (segment n)\<lparr>end_segment_reason :=
                        insert DeadEnd (end_segment_reason (segment n))\<rparr>\<rparr>, y)"
  using assms by (simp add: SignalCost_def Let_def)

theorem SignalCost_oneway_against_witness:
  "DeadEnd \<in> end_segment_reason (segment (fst (snd
     (SignalCost (signal_world False True True SIGNAL_STATE_RED SIGTYPE_BLOCK)
        (configure default_settings 0 False False) yapf0
        (a_node 11 0 0 (fresh_segment 11 0)) 11 0))))"
proof -
  let ?w = "signal_world False True True SIGNAL_STATE_RED SIGTYPE_BLOCK"
  have h1: "GetTileType ?w 11 = MP_RAILWAY"
    and h2: "HasSignalOnTrackdir ?w 11 (ReverseTrackdir ?w 0)"
    and h3: "\<not> HasSignalOnTrackdir ?w 11 0"
    and h4: "IsOnewaySignal ?w 11 (TrackdirToTrack ?w 0)"
    by (simp_all add: signal_world_fields)
  show ?thesis
    unfolding SignalCost_oneway_against [OF h1 h2 h3 h4]
    by simp
qed

text \<open>C6, within 32 bits: at a signal along the travel direction that is not red, with
  \<open>i\<close> signals passed, provided the look-ahead polynomial \<open>p0 + i * (p1 + i * p2)\<close> lies
  strictly between \<open>- 2 ^ 31\<close> and \<open>2 ^ 31\<close> whenever \<open>i\<close> is below
  \<open>rail_look_ahead_max_signals\<close>, \<open>SignalCost\<close> adds the absolute value of the
  polynomial when \<open>i\<close> is below the limit and the polynomial is negative, and no look-ahead
  cost otherwise. The only other term is the signal-back penalty of a path signal that
  also faces the other way; the sum is held in an \<^verbatim>\<open>int\<close>, and is the plain sum where
  that fits.\<close>

theorem SignalCost_green_look_ahead:
  assumes "GetTileType w tile = MP_RAILWAY"
    and "HasSignalOnTrackdir w tile trackdir"
    and "GetSignalStateByTrackdir w tile trackdir \<noteq> SIGNAL_STATE_RED"
    and "num_signals_passed n < rail_look_ahead_max_signals s \<longrightarrow>
           - (2 ^ 31) < look_ahead_polynomial s (num_signals_passed n)
           \<and> look_ahead_polynomial s (num_signals_passed n) < 2 ^ 31"
  shows "fst (SignalCost w (configure s m d e) y n tile trackdir) =
           int32 ((if num_signals_passed n < rail_look_ahead_max_signals s
                      \<and> look_ahead_polynomial s (num_signals_passed n) < 0
                   then \<bar>look_ahead_polynomial s (num_signals_passed n)\<bar>
                   else 0)
                  + pbs_signal_back w (configure s m d e)
                      (n\<lparr>num_signals_passed := num_signals_passed n + 1\<rparr>) tile trackdir)
         \<and> ((if num_signals_passed n < rail_look_ahead_max_signals s
                 \<and> look_ahead_polynomial s (num_signals_passed n) < 0
              then \<bar>look_ahead_polynomial s (num_signals_passed n)\<bar>
              else 0)
             + pbs_signal_back w (configure s m d e)
                 (n\<lparr>num_signals_passed := num_signals_passed n + 1\<rparr>) tile trackdir < 2 ^ 31
             \<longrightarrow> fst (SignalCost w (configure s m d e) y n tile trackdir) =
                   (if num_signals_passed n < rail_look_ahead_max_signals s
                       \<and> look_ahead_polynomial s (num_signals_passed n) < 0
                    then \<bar>look_ahead_polynomial s (num_signals_passed n)\<bar>
                    else 0)
                   + pbs_signal_back w (configure s m d e)
                       (n\<lparr>num_signals_passed := num_signals_passed n + 1\<rparr>) tile trackdir)"
proof -
  let ?i = "num_signals_passed n"
  let ?P = "look_ahead_polynomial s ?i"
  let ?B = "pbs_signal_back w (configure s m d e) (n\<lparr>num_signals_passed := ?i + 1\<rparr>) tile trackdir"
  let ?L = "if ?i < rail_look_ahead_max_signals s \<and> ?P < 0 then \<bar>?P\<bar> else 0"
  have r: "?i < rail_look_ahead_max_signals s \<longrightarrow> - (2 ^ 31) \<le> ?P \<and> ?P < 2 ^ 31"
    using assms(4) by auto
  have la: "look_ahead_cost_of (configure s m d e) ?i
              = (if ?i < rail_look_ahead_max_signals s then ?P else 0)"
    by (rule table_entry_in_range [OF r])
  have neg: "(if look_ahead_cost_of (configure s m d e) ?i < 0
              then int32 (- look_ahead_cost_of (configure s m d e) ?i) else 0) = ?L"
  proof (cases "?i < rail_look_ahead_max_signals s \<and> ?P < 0")
    case True
    with assms(4) have "- (2 ^ 31) \<le> - ?P" "- ?P < 2 ^ 31" by simp_all
    then have "int32 (- ?P) = - ?P" by (rule int32_id)
    with True show ?thesis by (simp add: la)
  next
    case False
    then show ?thesis by (auto simp add: la)
  qed
  have code: "fst (SignalCost w (configure s m d e) y n tile trackdir) = int32 (?L + ?B)"
    using SignalCost_not_red [OF assms(1-3), of "configure s m d e" y n]
    by (simp only: neg)
  have "0 \<le> ?L + ?B"
    using pbs_signal_back_nonneg [of w "configure s m d e" _ tile trackdir] by simp
  then have "?L + ?B < 2 ^ 31 \<longrightarrow> int32 (?L + ?B) = ?L + ?B"
    by (simp add: int32_id)
  with code show ?thesis by simp
qed

theorem SignalCost_green_look_ahead_witness:
  "fst (SignalCost (signal_world True False False SIGNAL_STATE_GREEN SIGTYPE_BLOCK)
          (configure (default_settings\<lparr>rail_look_ahead_signal_p0 := - 50\<rparr>) 0 False False)
          yapf0 (a_node 11 0 2 (fresh_segment 11 0)) 11 0) = 230
   \<and> look_ahead_polynomial (default_settings\<lparr>rail_look_ahead_signal_p0 := - 50\<rparr>) 2 = - 230"
proof -
  let ?w = "signal_world True False False SIGNAL_STATE_GREEN SIGTYPE_BLOCK"
  let ?s = "default_settings\<lparr>rail_look_ahead_signal_p0 := - 50\<rparr>"
  let ?n = "a_node 11 0 2 (fresh_segment 11 0)"
  have p: "look_ahead_polynomial ?s 2 = - 230"
    by (simp add: look_ahead_polynomial_def default_settings_def)
  have i: "num_signals_passed ?n = 2" by (simp add: a_node_def)
  have h1: "GetTileType ?w 11 = MP_RAILWAY"
    and h2: "HasSignalOnTrackdir ?w 11 0"
    and h3: "GetSignalStateByTrackdir ?w 11 0 \<noteq> SIGNAL_STATE_RED"
    by (simp_all add: signal_world_fields)
  have h4: "num_signals_passed ?n < rail_look_ahead_max_signals ?s \<longrightarrow>
           - (2 ^ 31) < look_ahead_polynomial ?s (num_signals_passed ?n)
           \<and> look_ahead_polynomial ?s (num_signals_passed ?n) < 2 ^ 31"
    by (simp add: i p)
  have b: "pbs_signal_back ?w (configure ?s 0 False False) n' 11 0 = 0" for n'
    by (simp add: pbs_signal_back_def signal_world_fields)
  have m: "rail_look_ahead_max_signals ?s = 10" by (simp add: default_settings_def)
  from SignalCost_green_look_ahead [OF h1 h2 h3 h4, of 0 False False yapf0]
  have "fst (SignalCost ?w (configure ?s 0 False False) yapf0 ?n 11 0) = 230"
    by (simp add: b i p m int32_def)
  with p show ?thesis by simp
qed

text \<open>The claim without the bound fails: with \<open>p2 = - 1000000\<close> and 50 signals passed, of
  100 looked ahead, the polynomial is \<open>- 2500000000\<close>, the table holds \<open>1794967296\<close> and a
  green signal costs nothing.\<close>

theorem SignalCost_green_look_ahead_counterexample:
  "GetTileType (signal_world True False False SIGNAL_STATE_GREEN SIGTYPE_BLOCK) 11 = MP_RAILWAY
   \<and> HasSignalOnTrackdir (signal_world True False False SIGNAL_STATE_GREEN SIGTYPE_BLOCK) 11 0
   \<and> GetSignalStateByTrackdir (signal_world True False False SIGNAL_STATE_GREEN SIGTYPE_BLOCK) 11 0
        \<noteq> SIGNAL_STATE_RED
   \<and> num_signals_passed (a_node 11 0 50 (fresh_segment 11 0)) = 50
   \<and> 50 < rail_look_ahead_max_signals steep_settings
   \<and> rail_look_ahead_signal_p0 steep_settings
        + 50 * (rail_look_ahead_signal_p1 steep_settings
                + 50 * rail_look_ahead_signal_p2 steep_settings) = - 2500000000
   \<and> sig_look_ahead_costs (configure steep_settings 0 False False) ! 50 = 1794967296
   \<and> fst (SignalCost (signal_world True False False SIGNAL_STATE_GREEN SIGTYPE_BLOCK)
          (configure steep_settings 0 False False) yapf0
          (a_node 11 0 50 (fresh_segment 11 0)) 11 0) = 0"
  by (simp add: SignalCost_def Let_def signal_world_fields a_node_def steep_table_50
        steep_settings_fields pbs_signal_back_def int32_def)

text \<open>C7, within 32 bits: at a red signal along the travel direction that is not a path
  signal and does not end the branch, with \<open>i\<close> signals passed, provided the look-ahead
  polynomial \<open>p0 + i * (p1 + i * p2)\<close> lies between \<open>- 2 ^ 31\<close> and \<open>2 ^ 31 - 1\<close> whenever
  \<open>i\<close> is below \<open>rail_look_ahead_max_signals\<close>, \<open>SignalCost\<close> adds the polynomial when
  \<open>i\<close> is below the limit and the polynomial is positive, plus, exactly when no signal
  was passed before, \<open>rail_firstred_exit_penalty\<close> for an exit or combo signal and
  \<open>rail_firstred_penalty\<close> for a block or entry signal. The sum is held in an
  \<^verbatim>\<open>int\<close>, and is the plain sum where that fits.\<close>

theorem SignalCost_red_penalties:
  assumes "GetTileType w tile = MP_RAILWAY"
    and "HasSignalOnTrackdir w tile trackdir"
    and "GetSignalStateByTrackdir w tile trackdir = SIGNAL_STATE_RED"
    and "\<not> IsPbsSignal (GetSignalType w tile (TrackdirToTrack w trackdir))"
    and "\<not> (TreatFirstRedTwoWaySignalAsEOL (configure s m d e) \<and> choice_seen n
            \<and> HasSignalOnTrackdir w tile (ReverseTrackdir w trackdir)
            \<and> num_signals_passed n = 0)"
    and "num_signals_passed n < rail_look_ahead_max_signals s \<longrightarrow>
           - (2 ^ 31) \<le> look_ahead_polynomial s (num_signals_passed n)
           \<and> look_ahead_polynomial s (num_signals_passed n) < 2 ^ 31"
  shows "fst (SignalCost w (configure s m d e) y n tile trackdir) =
           int32 ((if num_signals_passed n < rail_look_ahead_max_signals s
                      \<and> look_ahead_polynomial s (num_signals_passed n) > 0
                   then look_ahead_polynomial s (num_signals_passed n)
                   else 0)
                  + (if num_signals_passed n = 0
                     then (if GetSignalType w tile (TrackdirToTrack w trackdir)
                                \<in> {SIGTYPE_EXIT, SIGTYPE_COMBO}
                           then int (rail_firstred_exit_penalty s)
                           else int (rail_firstred_penalty s))
                     else 0))
         \<and> ((if num_signals_passed n < rail_look_ahead_max_signals s
                 \<and> look_ahead_polynomial s (num_signals_passed n) > 0
              then look_ahead_polynomial s (num_signals_passed n)
              else 0)
             + (if num_signals_passed n = 0
                then (if GetSignalType w tile (TrackdirToTrack w trackdir)
                           \<in> {SIGTYPE_EXIT, SIGTYPE_COMBO}
                      then int (rail_firstred_exit_penalty s)
                      else int (rail_firstred_penalty s))
                else 0) < 2 ^ 31
             \<longrightarrow> fst (SignalCost w (configure s m d e) y n tile trackdir) =
                   (if num_signals_passed n < rail_look_ahead_max_signals s
                       \<and> look_ahead_polynomial s (num_signals_passed n) > 0
                    then look_ahead_polynomial s (num_signals_passed n)
                    else 0)
                   + (if num_signals_passed n = 0
                      then (if GetSignalType w tile (TrackdirToTrack w trackdir)
                                 \<in> {SIGTYPE_EXIT, SIGTYPE_COMBO}
                            then int (rail_firstred_exit_penalty s)
                            else int (rail_firstred_penalty s))
                      else 0))"
proof -
  let ?i = "num_signals_passed n"
  let ?P = "look_ahead_polynomial s ?i"
  let ?ty = "GetSignalType w tile (TrackdirToTrack w trackdir)"
  let ?L = "if ?i < rail_look_ahead_max_signals s \<and> ?P > 0 then ?P else 0"
  let ?F = "if ?i = 0
            then (if ?ty \<in> {SIGTYPE_EXIT, SIGTYPE_COMBO} then int (rail_firstred_exit_penalty s)
                  else int (rail_firstred_penalty s))
            else 0"
  have la: "look_ahead_cost_of (configure s m d e) ?i
              = (if ?i < rail_look_ahead_max_signals s then ?P else 0)"
    by (rule table_entry_in_range [OF assms(6)])
  have L: "0 \<le> ?L" "?L < 2 ^ 31" using assms(6) by auto
  have c1: "(if 0 < look_ahead_cost_of (configure s m d e) ?i
             then int32 (look_ahead_cost_of (configure s m d e) ?i) else 0) = ?L"
  proof (cases "?i < rail_look_ahead_max_signals s \<and> 0 < ?P")
    case True
    with assms(6) have "- (2 ^ 31) \<le> ?P" "?P < 2 ^ 31" by simp_all
    then have "int32 ?P = ?P" by (rule int32_id)
    with True show ?thesis by (simp add: la)
  next
    case False
    then show ?thesis by (auto simp add: la)
  qed
  have pen: "first_red_penalty s ?ty =
      (if ?ty \<in> {SIGTYPE_EXIT, SIGTYPE_COMBO} then int (rail_firstred_exit_penalty s)
       else int (rail_firstred_penalty s))"
    using assms(4) by (cases ?ty) simp_all
  have "fst (SignalCost w (configure s m d e) y n tile trackdir)
        = int32 (if ?i = 0 then int32 (?L + first_red_penalty s ?ty) else ?L)"
    using SignalCost_red [OF assms(1-3) assms(5) assms(4), of y]
    by (simp only: c1 configure_simps)
  also have "\<dots> = (if ?i = 0 then int32 (?L + first_red_penalty s ?ty) else ?L)"
    using L by (simp add: int32_id int32_idem)
  also have "\<dots> = int32 (?L + ?F)"
    using L by (simp add: pen int32_id)
  finally have code: "fst (SignalCost w (configure s m d e) y n tile trackdir) = int32 (?L + ?F)" .
  have "0 \<le> ?L + ?F" using L by simp
  then have "?L + ?F < 2 ^ 31 \<longrightarrow> int32 (?L + ?F) = ?L + ?F"
    by (simp add: int32_id)
  with code show ?thesis by simp
qed

theorem SignalCost_red_penalties_witness:
  "fst (SignalCost (signal_world True False False SIGNAL_STATE_RED SIGTYPE_EXIT)
          (configure default_settings 0 False True)
          yapf0 (a_node 11 0 0 (fresh_segment 11 0)) 11 0) = 10500
   \<and> fst (SignalCost (signal_world True False False SIGNAL_STATE_RED SIGTYPE_BLOCK)
          (configure default_settings 0 False True)
          yapf0 (a_node 11 0 3 (fresh_segment 11 0)) 11 0) = 245
   \<and> look_ahead_polynomial default_settings 0 = 500
   \<and> look_ahead_polynomial default_settings 3 = 245"
proof -
  let ?c = "configure default_settings 0 False True"
  have p0: "look_ahead_polynomial default_settings 0 = 500"
    and p3: "look_ahead_polynomial default_settings 3 = 245"
    by (simp_all add: look_ahead_polynomial_def default_settings_def)
  have m: "rail_look_ahead_max_signals default_settings = 10"
    and pe: "rail_firstred_exit_penalty default_settings = 10000"
    by (simp_all add: default_settings_def)
  have first: "fst (SignalCost (signal_world True False False SIGNAL_STATE_RED SIGTYPE_EXIT)
          ?c yapf0 (a_node 11 0 0 (fresh_segment 11 0)) 11 0) = 10500"
  proof -
    let ?w = "signal_world True False False SIGNAL_STATE_RED SIGTYPE_EXIT"
    let ?n = "a_node 11 0 0 (fresh_segment 11 0)"
    have i: "num_signals_passed ?n = 0" by (simp add: a_node_def)
    have h1: "GetTileType ?w 11 = MP_RAILWAY"
      and h2: "HasSignalOnTrackdir ?w 11 0"
      and h3: "GetSignalStateByTrackdir ?w 11 0 = SIGNAL_STATE_RED"
      and h4: "\<not> IsPbsSignal (GetSignalType ?w 11 (TrackdirToTrack ?w 0))"
      and h5: "\<not> (TreatFirstRedTwoWaySignalAsEOL ?c
                  \<and> choice_seen ?n \<and> HasSignalOnTrackdir ?w 11 (ReverseTrackdir ?w 0)
                  \<and> num_signals_passed ?n = 0)"
      by (simp_all add: signal_world_fields a_node_def)
    have h6: "num_signals_passed ?n < rail_look_ahead_max_signals default_settings \<longrightarrow>
           - (2 ^ 31) \<le> look_ahead_polynomial default_settings (num_signals_passed ?n)
           \<and> look_ahead_polynomial default_settings (num_signals_passed ?n) < 2 ^ 31"
      by (simp add: i p0)
    from SignalCost_red_penalties [OF h1 h2 h3 h4 h5 h6, of yapf0]
    show ?thesis by (simp add: i p0 m pe signal_world_fields int32_def)
  qed
  have later: "fst (SignalCost (signal_world True False False SIGNAL_STATE_RED SIGTYPE_BLOCK)
          ?c yapf0 (a_node 11 0 3 (fresh_segment 11 0)) 11 0) = 245"
  proof -
    let ?w = "signal_world True False False SIGNAL_STATE_RED SIGTYPE_BLOCK"
    let ?n = "a_node 11 0 3 (fresh_segment 11 0)"
    have i: "num_signals_passed ?n = 3" by (simp add: a_node_def)
    have h1: "GetTileType ?w 11 = MP_RAILWAY"
      and h2: "HasSignalOnTrackdir ?w 11 0"
      and h3: "GetSignalStateByTrackdir ?w 11 0 = SIGNAL_STATE_RED"
      and h4: "\<not> IsPbsSignal (GetSignalType ?w 11 (TrackdirToTrack ?w 0))"
      and h5: "\<not> (TreatFirstRedTwoWaySignalAsEOL ?c
                  \<and> choice_seen ?n \<and> HasSignalOnTrackdir ?w 11 (ReverseTrackdir ?w 0)
                  \<and> num_signals_passed ?n = 0)"
      by (simp_all add: signal_world_fields a_node_def)
    have h6: "num_signals_passed ?n < rail_look_ahead_max_signals default_settings \<longrightarrow>
           - (2 ^ 31) \<le> look_ahead_polynomial default_settings (num_signals_passed ?n)
           \<and> look_ahead_polynomial default_settings (num_signals_passed ?n) < 2 ^ 31"
      by (simp add: i p3)
    from SignalCost_red_penalties [OF h1 h2 h3 h4 h5 h6, of yapf0]
    show ?thesis by (simp add: i p3 m int32_def)
  qed
  from first later p0 p3 show ?thesis by simp
qed

text \<open>The claim without the bound fails: with \<open>p2 = - 1000000\<close> and 50 signals passed, of
  100 looked ahead, the polynomial is \<open>- 2500000000\<close>, not positive, yet a red block
  signal costs the table entry \<open>1794967296\<close>.\<close>

theorem SignalCost_red_penalties_counterexample:
  "GetTileType (signal_world True False False SIGNAL_STATE_RED SIGTYPE_BLOCK) 11 = MP_RAILWAY
   \<and> HasSignalOnTrackdir (signal_world True False False SIGNAL_STATE_RED SIGTYPE_BLOCK) 11 0
   \<and> GetSignalStateByTrackdir (signal_world True False False SIGNAL_STATE_RED SIGTYPE_BLOCK) 11 0
        = SIGNAL_STATE_RED
   \<and> \<not> IsPbsSignal (GetSignalType (signal_world True False False SIGNAL_STATE_RED SIGTYPE_BLOCK) 11
        (TrackdirToTrack (signal_world True False False SIGNAL_STATE_RED SIGTYPE_BLOCK) 0))
   \<and> \<not> HasSignalOnTrackdir (signal_world True False False SIGNAL_STATE_RED SIGTYPE_BLOCK) 11
        (ReverseTrackdir (signal_world True False False SIGNAL_STATE_RED SIGTYPE_BLOCK) 0)
   \<and> num_signals_passed (a_node 11 0 50 (fresh_segment 11 0)) = 50
   \<and> 50 < rail_look_ahead_max_signals steep_settings
   \<and> rail_look_ahead_signal_p0 steep_settings
        + 50 * (rail_look_ahead_signal_p1 steep_settings
                + 50 * rail_look_ahead_signal_p2 steep_settings) = - 2500000000
   \<and> fst (SignalCost (signal_world True False False SIGNAL_STATE_RED SIGTYPE_BLOCK)
          (configure steep_settings 0 False False) yapf0
          (a_node 11 0 50 (fresh_segment 11 0)) 11 0) = 1794967296"
  by (simp add: SignalCost_def Let_def signal_world_fields a_node_def steep_table_50
        steep_settings_fields pbs_signal_back_def int32_def
        TreatFirstRedTwoWaySignalAsEOL_def configure_simps)

text \<open>C3, as the code has it: the red first signal ends the branch when, besides what
  the claim lists (red, along the travel direction, not a path signal, a signal on the
  reverse trackdir too, no signal passed yet, the policy enabled by the setting and by the
  pathfinder), the node has seen a choice (\<open>choice_seen\<close>). Then \<open>SignalCost\<close> returns
  \<open>-1\<close>, sets \<open>DeadEnd\<close>, prunes the node's branch and raises
  \<open>stopped_on_first_two_way_signal\<close>; no penalty is added, and neither the last red signal
  nor the signal count of the node is touched.\<close>

theorem SignalCost_first_red_two_way_eol:
  assumes "GetTileType w tile = MP_RAILWAY"
    and "HasSignalOnTrackdir w tile trackdir"
    and "HasSignalOnTrackdir w tile (ReverseTrackdir w trackdir)"
    and "GetSignalStateByTrackdir w tile trackdir = SIGNAL_STATE_RED"
    and "\<not> IsPbsSignal (GetSignalType w tile (TrackdirToTrack w trackdir))"
    and "num_signals_passed n = 0"
    and "TreatFirstRedTwoWaySignalAsEOL c"
    and "choice_seen n"
  shows "SignalCost w c y n tile trackdir =
           (- 1,
            n\<lparr>last_signal_type := GetSignalType w tile (TrackdirToTrack w trackdir),
              segment := (segment n)\<lparr>end_segment_reason :=
                            insert DeadEnd (end_segment_reason (segment n))\<rparr>\<rparr>,
            y\<lparr>pruned := (key_tile n, key_td n) # pruned y,
              stopped_on_first_two_way_signal := True\<rparr>)"
  using assms by (simp add: SignalCost_def Let_def)

theorem SignalCost_first_red_two_way_eol_witness:
  "fst (SignalCost (signal_world True True False SIGNAL_STATE_RED SIGTYPE_BLOCK)
          (configure default_settings 0 False True) yapf0
          ((a_node 11 0 0 (fresh_segment 11 0))\<lparr>choice_seen := True\<rparr>) 11 0) = - 1"
proof -
  let ?w = "signal_world True True False SIGNAL_STATE_RED SIGTYPE_BLOCK"
  let ?n = "(a_node 11 0 0 (fresh_segment 11 0))\<lparr>choice_seen := True\<rparr>"
  have h1: "GetTileType ?w 11 = MP_RAILWAY"
    and h2: "HasSignalOnTrackdir ?w 11 0"
    and h3: "HasSignalOnTrackdir ?w 11 (ReverseTrackdir ?w 0)"
    and h4: "GetSignalStateByTrackdir ?w 11 0 = SIGNAL_STATE_RED"
    and h5: "\<not> IsPbsSignal (GetSignalType ?w 11 (TrackdirToTrack ?w 0))"
    and h6: "num_signals_passed ?n = 0"
    and h7: "TreatFirstRedTwoWaySignalAsEOL (configure default_settings 0 False True)"
    and h8: "choice_seen ?n"
    by (simp_all add: signal_world_fields a_node_def TreatFirstRedTwoWaySignalAsEOL_def
          configure_simps default_settings_def)
  show ?thesis
    unfolding SignalCost_first_red_two_way_eol [OF h1 h2 h3 h4 h5 h6 h7 h8]
    by simp
qed

text \<open>The claim without \<open>choice_seen\<close> fails: a red two-way block signal, first on the
  path, policy enabled, on a node that has not seen a choice, is priced (500 look-ahead
  plus 1000 first-red) and the segment is not marked as a dead end.\<close>

theorem SignalCost_first_red_two_way_counterexample:
  "GetTileType (signal_world True True False SIGNAL_STATE_RED SIGTYPE_BLOCK) 11 = MP_RAILWAY
   \<and> HasSignalOnTrackdir (signal_world True True False SIGNAL_STATE_RED SIGTYPE_BLOCK) 11 0
   \<and> HasSignalOnTrackdir (signal_world True True False SIGNAL_STATE_RED SIGTYPE_BLOCK) 11
        (ReverseTrackdir (signal_world True True False SIGNAL_STATE_RED SIGTYPE_BLOCK) 0)
   \<and> GetSignalStateByTrackdir (signal_world True True False SIGNAL_STATE_RED SIGTYPE_BLOCK) 11 0
        = SIGNAL_STATE_RED
   \<and> \<not> IsPbsSignal (GetSignalType (signal_world True True False SIGNAL_STATE_RED SIGTYPE_BLOCK) 11
        (TrackdirToTrack (signal_world True True False SIGNAL_STATE_RED SIGTYPE_BLOCK) 0))
   \<and> num_signals_passed (a_node 11 0 0 (fresh_segment 11 0)) = 0
   \<and> TreatFirstRedTwoWaySignalAsEOL (configure default_settings 0 False True)
   \<and> fst (SignalCost (signal_world True True False SIGNAL_STATE_RED SIGTYPE_BLOCK)
          (configure default_settings 0 False True) yapf0
          (a_node 11 0 0 (fresh_segment 11 0)) 11 0) = 1500
   \<and> DeadEnd \<notin> end_segment_reason (segment (fst (snd
        (SignalCost (signal_world True True False SIGNAL_STATE_RED SIGTYPE_BLOCK)
          (configure default_settings 0 False True) yapf0
          (a_node 11 0 0 (fresh_segment 11 0)) 11 0))))"
proof -
  have p: "look_ahead_poly 500 (- 100) 5 0 = 500"
    by (rule look_ahead_poly_in_range [THEN trans]) simp_all
  show ?thesis
    by (simp add: SignalCost_def Let_def signal_world_fields a_node_def fresh_segment_def
          TreatFirstRedTwoWaySignalAsEOL_def configure_simps look_ahead_cost_of_configure
          default_settings_def p pbs_signal_back_def int32_def)
qed

subsection \<open>PlatformLengthPenalty\<close>

text \<open>C8: with \<open>k\<close> the vehicle length in tiles, \<open>CeilDiv cached_total_length TILE_SIZE\<close>,
  minus the platform length, the penalty is
  \<open>rail_shorter_platform_penalty + rail_shorter_platform_per_tile_penalty * k\<close> for
  \<open>k > 0\<close>, \<open>rail_longer_platform_penalty + rail_longer_platform_per_tile_penalty * (-k)\<close>
  for \<open>k < 0\<close> and 0 for \<open>k = 0\<close>; a platform three tiles short costs the shorter-platform
  penalty plus three times the per-tile one.\<close>

theorem PlatformLengthPenalty_exact:
  assumes "cached_total_length (GetVehicle w) \<noteq> 0"
  shows "PlatformLengthPenalty w c platform_length =
     Ok (let k = int (CeilDiv (cached_total_length (GetVehicle w)) (TILE_SIZE w)) - platform_length
         in if k > 0 then int (rail_shorter_platform_penalty (settings c))
                          + int (rail_shorter_platform_per_tile_penalty (settings c)) * k
            else if k < 0 then int (rail_longer_platform_penalty (settings c))
                          + int (rail_longer_platform_per_tile_penalty (settings c)) * (- k)
            else 0)
     \<and> (int (CeilDiv (cached_total_length (GetVehicle w)) (TILE_SIZE w)) = platform_length + 3
          \<longrightarrow> PlatformLengthPenalty w c platform_length =
               Ok (int (rail_shorter_platform_penalty (settings c))
                   + int (rail_shorter_platform_per_tile_penalty (settings c)) * 3))"
  using assms by (simp add: PlatformLengthPenalty_def Let_def assert_def)

theorem PlatformLengthPenalty_exact_witness:
  "cached_total_length (GetVehicle line_world) \<noteq> 0
   \<and> int (CeilDiv (cached_total_length (GetVehicle line_world)) (TILE_SIZE line_world)) = 2 + 3
   \<and> PlatformLengthPenalty line_world
         (configure (default_settings\<lparr>rail_shorter_platform_per_tile_penalty := 50\<rparr>) 0 False False)
         2 = Ok 4150"
proof -
  have h: "cached_total_length (GetVehicle line_world) \<noteq> 0"
    by (simp add: line_world_fields a_train_def)
  have k: "int (CeilDiv (cached_total_length (GetVehicle line_world)) (TILE_SIZE line_world)) = 2 + 3"
    by (simp add: line_world_fields a_train_def CeilDiv_def)
  have "PlatformLengthPenalty line_world
         (configure (default_settings\<lparr>rail_shorter_platform_per_tile_penalty := 50\<rparr>) 0 False False)
         2 = Ok 4150"
    using PlatformLengthPenalty_exact [OF h, of
        "configure (default_settings\<lparr>rail_shorter_platform_per_tile_penalty := 50\<rparr>) 0 False False"
        2] k
    by (simp add: configure_simps default_settings_def)
  with h k show ?thesis by simp
qed

subsection \<open>CanUseGlobalCache\<close>

text \<open>C10: \<open>CanUseGlobalCache\<close> holds exactly when the cache is not disabled, the node
  has a parent and the parent has passed at least \<open>rail_look_ahead_max_signals\<close> signals
  (the length of the look-ahead table). So it fails for a root node and for a parent
  inside the look-ahead window, and where it holds the look-ahead cost is 0 at the parent's
  signal count and at every later one.\<close>

theorem CanUseGlobalCache_gate:
  "(CanUseGlobalCache (configure s m d e) n \<longleftrightarrow>
      \<not> d \<and> (\<exists>p. parent n = Some p
                   \<and> rail_look_ahead_max_signals s \<le> p_num_signals_passed p))
   \<and> (parent n = None \<longrightarrow> \<not> CanUseGlobalCache (configure s m d e) n)
   \<and> (\<forall>p. parent n = Some p \<and> p_num_signals_passed p < rail_look_ahead_max_signals s
          \<longrightarrow> \<not> CanUseGlobalCache (configure s m d e) n)
   \<and> (\<forall>p k. CanUseGlobalCache (configure s m d e) n \<and> parent n = Some p
          \<and> p_num_signals_passed p \<le> k
          \<longrightarrow> look_ahead_cost_of (configure s m d e) k = 0)"
  by (auto simp add: CanUseGlobalCache_def configure_simps look_ahead_cost_of_def
        split: option.splits)

theorem CanUseGlobalCache_gate_witness:
  "CanUseGlobalCache (configure default_settings 0 False False) (a_node 10 0 10 (fresh_segment 10 0))
   \<and> \<not> CanUseGlobalCache (configure default_settings 0 False False)
         (a_node 10 0 9 (fresh_segment 10 0))
   \<and> \<not> CanUseGlobalCache (configure default_settings 0 False False)
         ((a_node 10 0 10 (fresh_segment 10 0))\<lparr>parent := None\<rparr>)
   \<and> look_ahead_cost_of (configure default_settings 0 False False) 12 = 0"
  using CanUseGlobalCache_gate [of default_settings 0 False False "a_node 10 0 10 (fresh_segment 10 0)"]
    CanUseGlobalCache_gate [of default_settings 0 False False "a_node 10 0 9 (fresh_segment 10 0)"]
    CanUseGlobalCache_gate [of default_settings 0 False False
      "(a_node 10 0 10 (fresh_segment 10 0))\<lparr>parent := None\<rparr>"]
  by (simp add: a_node_def default_settings_def)

subsection \<open>Results and assertions\<close>

lemma rbind_Ok_iff: "rbind r f = Ok y \<longleftrightarrow> (\<exists>x. r = Ok x \<and> f x = Ok y)"
  by (cases r) (simp_all add: rbind_def)

lemma assert_Ok_iff: "assert b r = Ok y \<longleftrightarrow> b \<and> r = Ok y"
  by (simp add: assert_def)

subsection \<open>The loop and the cost bound\<close>

lemma next_tile_mono:
  assumes "next_tile w c n cur ok tfl sc ec esr = Ok (ec', esr', nxt)"
  shows "ec \<le> ec' \<and> esr \<subseteq> esr' \<and> (nxt \<noteq> None \<longrightarrow> esr' = {})"
  using assms
  by (auto simp add: next_tile_def Let_def assert_Ok_iff split: if_splits prod.splits)

lemma walk_tile_bound:
  assumes "walk_tile w c pc st = Ok (left, st')"
    and "0 < max_cost c" and "max_cost c < pc + segment_entry_cost st' + segment_cost st'"
  shows "left \<and> PathTooLong \<in> ws_end_segment_reason st'"
proof -
  let ?cur = "ws_cur st"
  let ?tf = "ws_tf st"
  obtain sigc n1 y1 where
    S: "SignalCost w c (ws_yapf st) (ws_node st) (t_tile ?cur) (t_td ?cur) = (sigc, n1, y1)"
    by (cases "SignalCost w c (ws_yapf st) (ws_node st) (t_tile ?cur) (t_td ?cur)") auto
  obtain ok tfl where F: "Follow w (t_tile ?cur) (t_td ?cur) = (ok, tfl)"
    by (cases "Follow w (t_tile ?cur) (t_td ?cur)") auto
  let ?sc5 = "segment_cost st + OneTileCost w c (t_tile ?cur) (t_td ?cur)
      + YAPF_TILE_LENGTH * int (tiles_skipped ?tf) + SlopeCost w c (t_tile ?cur) (t_td ?cur)
      + sigc + ReservationCost w c n1 (t_tile ?cur) (t_td ?cur) (tiles_skipped ?tf)"
  from assms(1) obtain sc6 ec1 esr1 ec3 esr3 nxt where
    N: "next_tile w c n1 ?cur ok tfl sc6 (ec1 + speed_limit_penalty w c n1 ?tf)
          (if max_cost c > 0 \<and> pc + segment_entry_cost st + sc6 > max_cost c
           then insert PathTooLong esr1 else esr1) = Ok (ec3, esr3, nxt)"
    and E: "segment_cost st' = sc6" "ws_end_segment_reason st' = esr3"
           "segment_entry_cost st' = segment_entry_cost st" "left \<longleftrightarrow> nxt = None"
    unfolding walk_tile_def Let_def S F
    by (auto simp add: rbind_Ok_iff split: option.splits)
  from next_tile_mono [OF N] assms(2,3) E show ?thesis by auto
qed

lemma enter_tile_fresh:
  assumes "enter_tile w c False st = Ok (left, st')"
  shows "\<not> left"
  using assms
  by (auto simp add: enter_tile_def Let_def rbind_Ok_iff split: if_splits)

lemma walk_bound:
  assumes "walk fuel w c pc False st = Ok st'"
    and "0 < max_cost c" and "max_cost c < pc + segment_entry_cost st' + segment_cost st'"
  shows "PathTooLong \<in> ws_end_segment_reason st'"
  using assms(1)
proof (induction fuel arbitrary: st)
  case 0
  then show ?case by simp
next
  case (Suc fuel)
  from Suc.prems obtain left st1 where
    W: "walk_tile w c pc st = Ok (left, st1)"
    and R: "(if left then Ok st1
             else rbind (enter_tile w c False st1) (\<lambda>(left2, st2).
                    if left2 then Ok st2 else walk fuel w c pc False st2)) = Ok st'"
    by (auto simp add: rbind_Ok_iff)
  show ?case
  proof (cases left)
    case True
    with R have "st' = st1" by simp
    with W walk_tile_bound [of w c pc st left st1] assms(2,3) show ?thesis by simp
  next
    case False
    with R obtain left2 st2 where
      En: "enter_tile w c False st1 = Ok (left2, st2)"
      and R2: "(if left2 then Ok st2 else walk fuel w c pc False st2) = Ok st'"
      by (auto simp add: rbind_Ok_iff)
    from enter_tile_fresh [OF En] R2 have "walk fuel w c pc False st2 = Ok st'" by simp
    then show ?thesis by (rule Suc.IH)
  qed
qed

subsection \<open>After the loop\<close>

lemma use_cached_segment_D:
  assumes "use_cached_segment w st = Ok st'"
  shows "segment_cost st' = seg_cost (segment (ws_node st))
         \<and> ws_end_segment_reason st' = end_segment_reason (segment (ws_node st))
         \<and> segment_entry_cost st' = segment_entry_cost st
         \<and> extra_cost st' = extra_cost st"
  using assms
  by (auto simp add: use_cached_segment_def Let_def assert_Ok_iff split: if_splits)

lemma finish_D:
  assumes "finish w c pc ic st = Ok (b, st')"
  shows "segment_cost st' = segment_cost st
         \<and> segment_entry_cost st' = segment_entry_cost st
         \<and> ws_end_segment_reason st' = ws_end_segment_reason st
         \<and> (b \<longrightarrow> PathTooLong \<notin> ws_end_segment_reason st
                \<and> cost (ws_node st') = pc + segment_entry_cost st' + segment_cost st'
                                        + extra_cost st')"
proof (cases "PathTooLong \<in> ws_end_segment_reason st")
  case True
  with assms show ?thesis by (simp add: finish_def Let_def)
next
  case ptl: False
  let ?esr = "ws_end_segment_reason st"
  let ?target = "?esr \<inter> ESRF_POSSIBLE_TARGET w \<noteq> {}
                   \<and> PfDetectDestination w (t_tile (ws_cur st)) (t_td (ws_cur st))"
  show ?thesis
  proof (cases "\<not> ?target \<and> ?esr \<inter> ESRF_ABORT_PF_MASK w \<noteq> {}")
    case True
    with assms ptl show ?thesis by (auto simp add: finish_def Let_def)
  next
    case noabort: False
    show ?thesis
    proof (cases ?target)
      case False
      with assms ptl noabort show ?thesis
        by (auto simp add: finish_def Let_def rbind_Ok_iff)
    next
      case tg: True
      show ?thesis
      proof (cases "Station \<in> ?esr")
        case False
        with assms ptl noabort tg show ?thesis
          by (auto simp add: finish_def Let_def rbind_Ok_iff)
      next
        case True
        with assms ptl noabort tg show ?thesis
          by (auto simp add: finish_def Let_def rbind_Ok_iff assert_Ok_iff)
      qed
    qed
  qed
qed

text \<open>A call that returns went through what follows the loop, either on the cached
  segment or after a walk.\<close>

lemma PfCalcCost_D:
  assumes "PfCalcCost fuel w c y n tf = Ok (b, st)"
  shows "\<exists>st1. finish w c (parent_cost_of n) (0 \<le> seg_cost (segment n)) st1 = Ok (b, st)
           \<and> (seg_cost (segment n) < 0 \<longrightarrow>
                (max_cost c > 0
                 \<and> parent_cost_of n + segment_entry_cost st1 + segment_cost st1 > max_cost c
                 \<longrightarrow> PathTooLong \<in> ws_end_segment_reason st1))
           \<and> (0 \<le> seg_cost (segment n) \<longrightarrow>
                segment_cost st1 = seg_cost (segment n)
                \<and> ws_end_segment_reason st1 = end_segment_reason (segment n))"
proof -
  let ?ic = "0 \<le> seg_cost (segment n)"
  let ?pc = "parent_cost_of n"
  let ?st0 = "\<lparr> ws_node = n, ws_yapf = y,
                 ws_cur = TILE_at w (key_tile n) (key_td n),
                 ws_prev = (case parent n of None \<Rightarrow> TILE_invalid w
                            | Some p \<Rightarrow> TILE_at w (p_last_tile p) (p_last_td p)),
                 ws_tf = tf,
                 segment_entry_cost = 0, segment_cost = 0, extra_cost = 0,
                 ws_end_segment_reason = {} \<rparr>"
  from assms obtain st1 where
    pre: "(if parent n = None
           then assert (\<not> ?ic) (walk fuel w c ?pc ?ic ?st0)
           else rbind (enter_tile w c ?ic ?st0) (\<lambda>(left, st1).
                  if left then Ok st1 else walk fuel w c ?pc ?ic st1)) = Ok st1"
    and fin: "finish w c ?pc ?ic st1 = Ok (b, st)"
    unfolding PfCalcCost_def Let_def parent_cost_of_def
    by (auto simp add: assert_Ok_iff rbind_Ok_iff)
  show ?thesis
  proof (cases ?ic)
    case False
    then have lt: "seg_cost (segment n) < 0" by simp
    from False have icF: "(0 \<le> seg_cost (segment n)) = False" by simp
    note pre' = pre [unfolded icF]
    have "\<exists>st'. walk fuel w c ?pc False st' = Ok st1"
    proof (cases "parent n")
      case None
      with pre' show ?thesis by (auto simp add: assert_Ok_iff)
    next
      case (Some p)
      with pre' obtain left st2 where
        En: "enter_tile w c False ?st0 = Ok (left, st2)"
        and R: "(if left then Ok st2 else walk fuel w c ?pc False st2) = Ok st1"
        by (auto simp add: rbind_Ok_iff)
      from enter_tile_fresh [OF En] R show ?thesis by auto
    qed
    then obtain st' where wk: "walk fuel w c ?pc False st' = Ok st1" by blast
    have "max_cost c > 0 \<and> ?pc + segment_entry_cost st1 + segment_cost st1 > max_cost c
            \<longrightarrow> PathTooLong \<in> ws_end_segment_reason st1"
      using walk_bound [OF wk] by simp
    with fin lt show ?thesis by auto
  next
    case True
    then have icT: "(0 \<le> seg_cost (segment n)) = True" by simp
    note pre' = pre [unfolded icT]
    from pre' obtain p where Some: "parent n = Some p"
      by (cases "parent n") (auto simp add: assert_Ok_iff)
    from pre' Some obtain left st2 where
      En: "enter_tile w c True ?st0 = Ok (left, st2)"
      and R: "(if left then Ok st2 else walk fuel w c ?pc True st2) = Ok st1"
      by (auto simp add: rbind_Ok_iff)
    from En obtain curve where
      U: "use_cached_segment w (?st0\<lparr>segment_entry_cost :=
             curve + SwitchCost w c (t_tile (ws_prev ?st0)) (t_tile (ws_cur ?st0))
                       (TrackdirToExitdir w (t_td (ws_prev ?st0)))\<rparr>) = Ok st2"
      and left: "left"
      by (auto simp add: enter_tile_def Let_def rbind_Ok_iff)
    from left R have eq: "st1 = st2" by simp
    from use_cached_segment_D [OF U]
    have "segment_cost st2 = seg_cost (segment n)
          \<and> ws_end_segment_reason st2 = end_segment_reason (segment n)"
      by simp
    with fin eq True show ?thesis by auto
  qed
qed

subsection \<open>Evaluating PfCalcCost on the examples\<close>

lemma station_world_fields:
  "INVALID_TILE station_world = 4294967295"
  "INVALID_TRACKDIR station_world = 255"
  "INVALID_RAILTYPE station_world = 255"
  "TILE_SIZE station_world = 16"
  "ESRF_POSSIBLE_TARGET station_world = {Depot, Waypoint, Station, SafeTile}"
  "ESRF_CACHED_MASK station_world = {DeadEnd, RailType, InfiniteLoop, SegmentTooLong, ChoiceFollows, Depot, Waypoint, Station, SafeTile}"
  "ESRF_ABORT_PF_MASK station_world = {DeadEnd, PathTooLong, InfiniteLoop, FirstTwoWayRed}"
  "Allow90degTurns station_world = False"
  "DoTrackMasking station_world = False"
  "GetTileType station_world = (\<lambda>t. if 8 \<le> t \<and> t \<le> 12 then MP_STATION else MP_RAILWAY)"
  "GetTileRailType station_world = (\<lambda>t. 0)"
  "HasSignalOnTrackdir station_world = (\<lambda>t td. False)"
  "ReverseTrackdir station_world = (\<lambda>td. (td + 8) mod 16)"
  "TrackdirToTrack station_world = (\<lambda>td. td mod 8)"
  "IsOnewaySignal station_world = (\<lambda>t tr. False)"
  "GetSignalStateByTrackdir station_world = (\<lambda>t td. SIGNAL_STATE_GREEN)"
  "GetSignalType station_world = (\<lambda>t tr. SIGTYPE_BLOCK)"
  "IsValidTrackdir station_world = (\<lambda>td. td < 14 \<and> td mod 8 < 6)"
  "TrackdirCrossesTrackdirs station_world = (\<lambda>td. [])"
  "NextTrackdir station_world = (\<lambda>td. td)"
  "IsPlainRailTile station_world = (\<lambda>t. 12 < t)"
  "GetTrackBits station_world = (\<lambda>t. [0])"
  "DiagdirReachesTracks station_world = (\<lambda>d. [0, 2, 4])"
  "ReverseDiagDir station_world = (\<lambda>d. (d + 2) mod 4)"
  "TrackdirToExitdir station_world = (\<lambda>td. 0)"
  "IsDiagonalTrackdir station_world = (\<lambda>td. td mod 8 < 2)"
  "IsLevelCrossing station_world = (\<lambda>t. False)"
  "stSlopeCost station_world = (\<lambda>t td. False)"
  "TileOffsByDiagDir station_world = (\<lambda>d. - 1)"
  "HasStationReservation station_world = (\<lambda>t. False)"
  "IsRailStationTile station_world = (\<lambda>t. 8 \<le> t \<and> t \<le> 12)"
  "GetReservedTrackbits station_world = (\<lambda>t. [])"
  "TrackOverlapsTracks station_world = (\<lambda>b tr. False)"
  "IsRailDepot station_world = (\<lambda>t. False)"
  "IsRailDepotTile station_world = (\<lambda>t. False)"
  "IsRailWaypoint station_world = (\<lambda>t. False)"
  "GetStationIndex station_world = (\<lambda>t. 0)"
  "WaypointIsSingleTile station_world = (\<lambda>i. False)"
  "Follow station_world = (\<lambda>t td. if t < 14 then (True, step_to (t + 1)) else (False, no_way))"
  "FollowRail station_world = (\<lambda>t td. if t < 12 then (True, step_to (t + 1)) else (False, no_way))"
  "IsSafeWaitingPosition station_world = (\<lambda>t td. False)"
  "IsWaitingPositionFree station_world = (\<lambda>t td. False)"
  "HasOnewaySignalBlockingTrackdir station_world = (\<lambda>t td. False)"
  "PfDetectDestination station_world = (\<lambda>t td. t = 12)"
  "HasBaseStation station_world = (\<lambda>t. 8 \<le> t \<and> t \<le> 12)"
  "GetPlatformLength station_world = (\<lambda>t d. 5)"
  "GetVehicle station_world = a_train"
  by (simp_all add: station_world_def line_world_fields)

lemmas cfg_defs = configure_def DisableCache_def SetMaxCost_def
  SetTreatFirstRedTwoWaySignalAsEOL_def CYapfCostRailT_def default_settings_def

lemmas cost_defs = SignalCost_def SlopeCost_def CurveCost_def SwitchCost_def OneTileCost_def
  ReservationCost_def potential_target_def speed_limit_penalty_def next_tile_def walk_tile_def
  enter_tile_def use_cached_segment_def finish_def PfCalcCost_def assert_def rbind_def
  TILE_at_def TILE_invalid_def HasTrackdir_def KillFirstBit_def FindFirstBit_def bits_and_def
  last_red_penalty_def pbs_signal_back_def YAPF_TILE_LENGTH_def YAPF_TILE_CORNER_LENGTH_def
  MAX_SEGMENT_COST_def look_ahead_cost_of_def PlatformLengthPenalty_def CeilDiv_def
  target_platform_length_def outcome_def stored_segment_def int32_def

lemmas example_defs = a_node_def fresh_segment_def line_segment_def step_to_def no_way_def
  a_train_def yapf0_def into_station_def from_outside_def outside_parent_def

lemma outcome_Some_D:
  "outcome r = Some (b, k, e, s, x, l) \<Longrightarrow>
     \<exists>st. r = Ok (b, st) \<and> cost (ws_node st) = k \<and> segment_entry_cost st = e
          \<and> segment_cost st = s \<and> extra_cost st = x"
  by (auto simp add: outcome_def split: result.splits)

lemma SetMaxCost_configure: "SetMaxCost m' (configure s m d e) = configure s m' d e"
  by (simp add: configure_def SetMaxCost_def DisableCache_def)

text \<open>The line, walked from tile 10 by a node whose parent has cost 700: three tiles of
  100, accepted at the depot with cost 1000.\<close>

lemma line_fresh_700:
  "outcome (PfCalcCost (Suc (Suc (Suc 0))) line_world (configure default_settings 0 False False)
      yapf0 (a_node 10 700 0 (fresh_segment 10 0)) (step_to 10))
   = Some (True, 1000, 0, 300, 0, [DeadEnd, Depot])"
  by (simp add: cfg_defs cost_defs line_world_fields example_defs Let_def)

text \<open>Beyond the look-ahead window (10 signals passed), with a cost bound of 500: the
  walk of a node whose parent has cost 0 stores \<open>line_segment\<close>.\<close>

lemma line_fresh_stores:
  "stored_segment (PfCalcCost (Suc (Suc (Suc 0))) line_world
      (configure default_settings 500 False False)
      yapf0 (a_node 10 0 10 (fresh_segment 10 0)) (step_to 10))
   = Some line_segment"
  by (simp add: cfg_defs cost_defs line_world_fields example_defs Let_def)

text \<open>The same bound, parent cost 400: the walk passes the bound on the second tile and
  the node is rejected with \<open>PathTooLong\<close> and a segment cost of 200.\<close>

lemma line_fresh_too_long:
  "outcome (PfCalcCost (Suc (Suc (Suc 0))) line_world
      (configure default_settings 500 False False)
      yapf0 (a_node 10 400 10 (fresh_segment 10 0)) (step_to 10))
   = Some (False, 0, 0, 200, 0, [PathTooLong])"
  by (simp add: cfg_defs cost_defs line_world_fields example_defs Let_def)

text \<open>The same node on the stored segment: accepted with cost 700, over the bound.\<close>

lemma line_cached_over_bound:
  "outcome (PfCalcCost (Suc (Suc (Suc 0))) line_world
      (configure default_settings 500 False False)
      yapf0 (a_node 10 400 10 line_segment) (step_to 10))
   = Some (True, 700, 0, 300, 0, [DeadEnd, Depot])"
  by (simp add: cfg_defs cost_defs line_world_fields example_defs Let_def)

text \<open>The train on tile 11 of the platform, destination this station: the node on the
  last platform tile is charged one tile of station penalty and refunded five.\<close>

lemma station_target:
  "outcome (PfCalcCost (Suc 0) station_world (configure default_settings 0 False False)
      yapf0 (a_node 12 5000 0 (fresh_segment 12 0)) into_station)
   = Some (True, 1100, 0, 1100, - 5000, [Station])"
  by (simp add: cfg_defs cost_defs station_world_fields example_defs Let_def)

text \<open>The same destination entered from the plain tile 7: five tiles are charged and five
  refunded.\<close>

lemma station_target_from_outside:
  "outcome (PfCalcCost (Suc 0) station_world (configure default_settings 0 False False)
      yapf0 ((a_node 12 5000 0 (fresh_segment 12 0))\<lparr>parent := Some outside_parent\<rparr>)
      from_outside)
   = Some (True, 5500, 0, 5500, - 5000, [Station])"
  by (simp add: cfg_defs cost_defs station_world_fields example_defs Let_def)

subsection \<open>PfCalcCost\<close>

lemma finish_stores:
  assumes "finish w c pc False st = Ok (b, st')" and "PathTooLong \<notin> ws_end_segment_reason st"
  shows "seg_cost (segment (ws_node st')) = segment_cost st
         \<and> end_segment_reason (segment (ws_node st'))
             = ws_end_segment_reason st \<inter> ESRF_CACHED_MASK w"
proof -
  let ?esr = "ws_end_segment_reason st"
  let ?target = "?esr \<inter> ESRF_POSSIBLE_TARGET w \<noteq> {}
                   \<and> PfDetectDestination w (t_tile (ws_cur st)) (t_td (ws_cur st))"
  show ?thesis
  proof (cases "\<not> ?target \<and> ?esr \<inter> ESRF_ABORT_PF_MASK w \<noteq> {}")
    case True
    with assms show ?thesis by (auto simp add: finish_def Let_def)
  next
    case noabort: False
    show ?thesis
    proof (cases ?target)
      case False
      with assms noabort show ?thesis
        by (auto simp add: finish_def Let_def rbind_Ok_iff)
    next
      case True
      with assms noabort show ?thesis
        by (auto simp add: finish_def Let_def rbind_Ok_iff assert_Ok_iff split: if_splits)
    qed
  qed
qed

text \<open>What a walk stores is what it computed, and a later call on the stored segment
  returns it: the cost as it is, the reasons cut to the cached mask.\<close>

lemma fresh_walk_stores:
  assumes "PfCalcCost fuel w c y n tf = Ok (b, st)" and "seg_cost (segment n) < 0"
    and "PathTooLong \<notin> ws_end_segment_reason st"
  shows "seg_cost (segment (ws_node st)) = segment_cost st
         \<and> end_segment_reason (segment (ws_node st))
             = ws_end_segment_reason st \<inter> ESRF_CACHED_MASK w"
proof -
  from assms(2) have icF: "(0 \<le> seg_cost (segment n)) = False" by simp
  from PfCalcCost_D [OF assms(1)] obtain st1 where
    f: "finish w c (parent_cost_of n) False st1 = Ok (b, st)"
    unfolding icF by blast
  from finish_D [OF f] assms(3) have e: "ws_end_segment_reason st1 = ws_end_segment_reason st"
    "segment_cost st = segment_cost st1" by simp_all
  with assms(3) have "PathTooLong \<notin> ws_end_segment_reason st1" by simp
  from finish_stores [OF f this] e show ?thesis by simp
qed

lemma cached_call_reproduces_walk:
  assumes "PfCalcCost fuel w c y n tf = Ok (b, st)" and "seg_cost (segment n) < 0"
    and "PathTooLong \<notin> ws_end_segment_reason st" and "0 \<le> segment_cost st"
    and "segment n' = segment (ws_node st)"
    and "PfCalcCost fuel' w c' y' n' tf' = Ok (b', st')"
  shows "segment_cost st' = segment_cost st
         \<and> ws_end_segment_reason st' = ws_end_segment_reason st \<inter> ESRF_CACHED_MASK w"
proof -
  from fresh_walk_stores [OF assms(1-3)] assms(4,5)
  have s: "seg_cost (segment n') = segment_cost st" "0 \<le> seg_cost (segment n')"
    "end_segment_reason (segment n') = ws_end_segment_reason st \<inter> ESRF_CACHED_MASK w"
    by simp_all
  from PfCalcCost_D [OF assms(6)] s(2) obtain st1 where
    f: "finish w c' (parent_cost_of n') (0 \<le> seg_cost (segment n')) st1 = Ok (b', st')"
    and q: "segment_cost st1 = seg_cost (segment n')"
      "ws_end_segment_reason st1 = end_segment_reason (segment n')"
    by blast
  from finish_D [OF f] q s show ?thesis by simp
qed

text \<open>C4: an accepted node's cost is the parent's cost (0 for a root) plus the segment
  entry cost, the segment cost and the extra cost. A call that walks the segment from
  scratch under a positive \<open>max_cost\<close> and ends with parent cost plus entry cost plus
  segment cost over the bound returns false; and the pass over a tile that takes this sum
  over the bound is the last one: the loop ends there, whatever fuel is left, and what
  follows the loop returns false at once.\<close>

theorem PfCalcCost_total_cost:
  "(PfCalcCost fuel w c y n tf = Ok (True, st) \<longrightarrow>
      cost (ws_node st) = parent_cost_of n + segment_entry_cost st + segment_cost st
                          + extra_cost st)
   \<and> (PfCalcCost fuel w c y n tf = Ok (b, st) \<and> seg_cost (segment n) < 0
       \<and> 0 < max_cost c
       \<and> max_cost c < parent_cost_of n + segment_entry_cost st + segment_cost st
       \<longrightarrow> \<not> b)
   \<and> (walk_tile w c pc st0 = Ok (left, st1) \<and> 0 < max_cost c
       \<and> max_cost c < pc + segment_entry_cost st1 + segment_cost st1
       \<longrightarrow> walk (Suc k) w c pc ic st0 = Ok st1 \<and> finish w c pc ic st1 = Ok (False, st1))"
proof (intro conjI impI)
  assume "PfCalcCost fuel w c y n tf = Ok (True, st)"
  from PfCalcCost_D [OF this] obtain st1 where
    "finish w c (parent_cost_of n) (0 \<le> seg_cost (segment n)) st1 = Ok (True, st)" by blast
  from finish_D [OF this]
  show "cost (ws_node st) = parent_cost_of n + segment_entry_cost st + segment_cost st
                          + extra_cost st" by simp
next
  assume a: "PfCalcCost fuel w c y n tf = Ok (b, st) \<and> seg_cost (segment n) < 0
       \<and> 0 < max_cost c
       \<and> max_cost c < parent_cost_of n + segment_entry_cost st + segment_cost st"
  then have r: "PfCalcCost fuel w c y n tf = Ok (b, st)" by simp
  from PfCalcCost_D [OF r] obtain st1 where
    f: "finish w c (parent_cost_of n) (0 \<le> seg_cost (segment n)) st1 = Ok (b, st)"
    and p: "seg_cost (segment n) < 0 \<longrightarrow>
                (max_cost c > 0
                 \<and> parent_cost_of n + segment_entry_cost st1 + segment_cost st1 > max_cost c
                 \<longrightarrow> PathTooLong \<in> ws_end_segment_reason st1)"
    by blast
  from finish_D [OF f] a p show "\<not> b" by auto
next
  assume a: "walk_tile w c pc st0 = Ok (left, st1) \<and> 0 < max_cost c
       \<and> max_cost c < pc + segment_entry_cost st1 + segment_cost st1"
  then have wt: "walk_tile w c pc st0 = Ok (left, st1)" and m: "0 < max_cost c"
    and o: "max_cost c < pc + segment_entry_cost st1 + segment_cost st1" by simp_all
  from walk_tile_bound [OF wt m o] have l: left and p: "PathTooLong \<in> ws_end_segment_reason st1"
    by simp_all
  from wt l show "walk (Suc k) w c pc ic st0 = Ok st1" by (simp add: rbind_def)
  from p show "finish w c pc ic st1 = Ok (False, st1)" by (simp add: finish_def)
qed

theorem PfCalcCost_total_cost_witness:
  "(\<exists>st. PfCalcCost (Suc (Suc (Suc 0))) line_world (configure default_settings 0 False False)
             yapf0 (a_node 10 700 0 (fresh_segment 10 0)) (step_to 10) = Ok (True, st)
          \<and> cost (ws_node st) = 700 + segment_entry_cost st + segment_cost st + extra_cost st
          \<and> cost (ws_node st) = 1000)
   \<and> (\<exists>st. PfCalcCost (Suc (Suc (Suc 0))) line_world
             (configure default_settings 500 False False)
             yapf0 (a_node 10 400 10 (fresh_segment 10 0)) (step_to 10) = Ok (False, st)
          \<and> 500 < 400 + segment_entry_cost st + segment_cost st)"
proof
  from outcome_Some_D [OF line_fresh_700] obtain st where
    r: "PfCalcCost (Suc (Suc (Suc 0))) line_world (configure default_settings 0 False False)
             yapf0 (a_node 10 700 0 (fresh_segment 10 0)) (step_to 10) = Ok (True, st)"
    and k: "cost (ws_node st) = 1000" by blast
  have pc: "parent_cost_of (a_node 10 700 0 (fresh_segment 10 0)) = 700"
    by (simp add: parent_cost_of_def a_node_def)
  from PfCalcCost_total_cost [where b = True and st = st] r pc
  have "cost (ws_node st) = 700 + segment_entry_cost st + segment_cost st + extra_cost st"
    by simp
  with r k show "\<exists>st. PfCalcCost (Suc (Suc (Suc 0))) line_world
             (configure default_settings 0 False False)
             yapf0 (a_node 10 700 0 (fresh_segment 10 0)) (step_to 10) = Ok (True, st)
          \<and> cost (ws_node st) = 700 + segment_entry_cost st + segment_cost st + extra_cost st
          \<and> cost (ws_node st) = 1000" by blast
next
  from outcome_Some_D [OF line_fresh_too_long] obtain st where
    r: "PfCalcCost (Suc (Suc (Suc 0))) line_world
             (configure default_settings 500 False False)
             yapf0 (a_node 10 400 10 (fresh_segment 10 0)) (step_to 10) = Ok (False, st)"
    and e: "segment_entry_cost st = 0" and s: "segment_cost st = 200" by blast
  from e s r show "\<exists>st. PfCalcCost (Suc (Suc (Suc 0))) line_world
             (configure default_settings 500 False False)
             yapf0 (a_node 10 400 10 (fresh_segment 10 0)) (step_to 10) = Ok (False, st)
          \<and> 500 < 400 + segment_entry_cost st + segment_cost st" by auto
qed

text \<open>C5: a call on a cached segment (cost not below zero) does not depend on
  \<open>max_cost\<close>: whatever bound is set, the result is the same, and the segment cost and
  end-segment reason it reports are the cached ones, so \<open>PathTooLong\<close> is never added.\<close>

theorem cache_hit_ignores_max_cost:
  assumes "0 \<le> seg_cost (segment n)"
  shows "PfCalcCost fuel w (SetMaxCost m c) y n tf = PfCalcCost fuel w c y n tf
         \<and> (\<forall>b st. PfCalcCost fuel w c y n tf = Ok (b, st) \<longrightarrow>
               segment_cost st = seg_cost (segment n)
               \<and> ws_end_segment_reason st = end_segment_reason (segment n))"
proof
  have st: "settings (SetMaxCost m c) = settings c"
    by (simp add: SetMaxCost_def)
  have pl: "PlatformLengthPenalty w (SetMaxCost m c) x = PlatformLengthPenalty w c x" for x
    by (simp add: PlatformLengthPenalty_def st Let_def)
  have lr: "last_red_penalty (SetMaxCost m c) x = last_red_penalty c x" for x
    by (simp add: last_red_penalty_def st)
  have cc: "CurveCost w (SetMaxCost m c) a b = CurveCost w c a b" for a b
    by (simp add: CurveCost_def st)
  have sw: "SwitchCost w (SetMaxCost m c) a b d = SwitchCost w c a b d" for a b d
    by (simp add: SwitchCost_def st Let_def)
  have fin: "finish w (SetMaxCost m c) pc ic st = finish w c pc ic st" for pc ic st
    by (simp add: finish_def pl lr st Let_def)
  have fin': "finish w (SetMaxCost m c) pc ic = finish w c pc ic" for pc ic
    by (rule ext) (rule fin)
  have en: "enter_tile w (SetMaxCost m c) True st = enter_tile w c True st" for st
    by (simp add: enter_tile_def cc sw Let_def)
  have left: "enter_tile w c True st = Ok (l, st') \<Longrightarrow> segment_cost st = 0 \<Longrightarrow> l" for st l st'
    by (auto simp add: enter_tile_def Let_def rbind_Ok_iff)
  show "PfCalcCost fuel w (SetMaxCost m c) y n tf = PfCalcCost fuel w c y n tf"
  proof (cases "parent n")
    case None
    with assms show ?thesis by (simp add: PfCalcCost_def assert_def rbind_def)
  next
    case (Some p)
    let ?st0 = "\<lparr> ws_node = n, ws_yapf = y,
                 ws_cur = TILE_at w (key_tile n) (key_td n),
                 ws_prev = TILE_at w (p_last_tile p) (p_last_td p),
                 ws_tf = tf,
                 segment_entry_cost = 0, segment_cost = 0, extra_cost = 0,
                 ws_end_segment_reason = {} \<rparr>"
    have "rbind (enter_tile w c True ?st0) (\<lambda>(l, st1).
             if l then Ok st1 else walk fuel w (SetMaxCost m c) (p_cost p) True st1)
          = rbind (enter_tile w c True ?st0) (\<lambda>(l, st1).
             if l then Ok st1 else walk fuel w c (p_cost p) True st1)"
    proof (cases "enter_tile w c True ?st0")
      case (Ok x)
      then obtain l st1 where x: "x = (l, st1)" by (cases x)
      with Ok left [of ?st0 l st1] have l by simp
      with Ok x show ?thesis by (simp add: rbind_def)
    qed (simp_all add: rbind_def)
    with Some assms show ?thesis
      by (simp add: PfCalcCost_def Let_def en fin')
  qed
next
  show "\<forall>b st. PfCalcCost fuel w c y n tf = Ok (b, st) \<longrightarrow>
               segment_cost st = seg_cost (segment n)
               \<and> ws_end_segment_reason st = end_segment_reason (segment n)"
  proof (intro allI impI)
    fix b st
    assume "PfCalcCost fuel w c y n tf = Ok (b, st)"
    from PfCalcCost_D [OF this] obtain st1 where
      f: "finish w c (parent_cost_of n) (0 \<le> seg_cost (segment n)) st1 = Ok (b, st)"
      and q: "0 \<le> seg_cost (segment n) \<longrightarrow>
                segment_cost st1 = seg_cost (segment n)
                \<and> ws_end_segment_reason st1 = end_segment_reason (segment n)"
      by blast
    from finish_D [OF f] q assms
    show "segment_cost st = seg_cost (segment n)
          \<and> ws_end_segment_reason st = end_segment_reason (segment n)" by simp
  qed
qed

theorem cache_hit_ignores_max_cost_witness:
  "0 \<le> seg_cost (segment (a_node 10 400 10 line_segment))
   \<and> PfCalcCost (Suc (Suc (Suc 0))) line_world (configure default_settings 500 False False)
        yapf0 (a_node 10 400 10 line_segment) (step_to 10)
     = PfCalcCost (Suc (Suc (Suc 0))) line_world (configure default_settings 0 False False)
        yapf0 (a_node 10 400 10 line_segment) (step_to 10)
   \<and> outcome (PfCalcCost (Suc (Suc (Suc 0))) line_world
        (configure default_settings 500 False False)
        yapf0 (a_node 10 400 10 line_segment) (step_to 10))
     = Some (True, 700, 0, 300, 0, [DeadEnd, Depot])"
proof -
  have h: "0 \<le> seg_cost (segment (a_node 10 400 10 line_segment))"
    by (simp add: a_node_def line_segment_def)
  from cache_hit_ignores_max_cost [OF h, of "Suc (Suc (Suc 0))" line_world 500
      "configure default_settings 0 False False" yapf0 "step_to 10"]
  have "PfCalcCost (Suc (Suc (Suc 0))) line_world (configure default_settings 500 False False)
        yapf0 (a_node 10 400 10 line_segment) (step_to 10)
     = PfCalcCost (Suc (Suc (Suc 0))) line_world (configure default_settings 0 False False)
        yapf0 (a_node 10 400 10 line_segment) (step_to 10)"
    by (simp add: SetMaxCost_configure)
  with h line_cached_over_bound show ?thesis by simp
qed

text \<open>C2 at a target station. A station on the way is charged
  \<open>rail_station_penalty * (tiles_skipped + 1)\<close> in the segment cost, and a station that
  is the detected target is refunded \<open>rail_station_penalty * platform length\<close> in the
  extra cost, the length being that of the whole platform. Entered from the plain tile
  before it, the platform of five tiles is charged and refunded five tiles, and the
  accepted node costs 5500 under a parent of cost 5000. Entered from tile 11 of the same
  platform, one tile is charged and five are refunded: the accepted node costs 1100 under
  a parent of cost 5000, and the cost goes down along the parent chain.\<close>

theorem target_station_refund_exceeds_charge:
  "outcome (PfCalcCost (Suc 0) station_world (configure default_settings 0 False False)
      yapf0 (a_node 12 5000 0 (fresh_segment 12 0)) into_station)
   = Some (True, 1100, 0, 1100, - 5000, [Station])
   \<and> parent_cost_of (a_node 12 5000 0 (fresh_segment 12 0)) = 5000
   \<and> outcome (PfCalcCost (Suc 0) station_world (configure default_settings 0 False False)
      yapf0 ((a_node 12 5000 0 (fresh_segment 12 0))\<lparr>parent := Some outside_parent\<rparr>)
      from_outside)
   = Some (True, 5500, 0, 5500, - 5000, [Station])
   \<and> parent_cost_of ((a_node 12 5000 0 (fresh_segment 12 0))\<lparr>parent := Some outside_parent\<rparr>)
     = 5000"
  using station_target station_target_from_outside
  by (simp add: parent_cost_of_def a_node_def outside_parent_def)

text \<open>C1 on the line, beyond the look-ahead window and with \<open>max_cost\<close> 500. The walk of
  a node under a parent of cost 0 stores the segment (cost 300, reasons dead end and
  depot). A node with the same key under a parent of cost 400 may use the global cache too;
  on the stored segment it is accepted with segment cost 300 and those reasons, while its
  own walk from scratch stops at the second tile with segment cost 200 and \<open>PathTooLong\<close>,
  and is rejected.\<close>

theorem cached_segment_differs_from_walk_under_max_cost:
  "stored_segment (PfCalcCost (Suc (Suc (Suc 0))) line_world
      (configure default_settings 500 False False)
      yapf0 (a_node 10 0 10 (fresh_segment 10 0)) (step_to 10)) = Some line_segment
   \<and> CanUseGlobalCache (configure default_settings 500 False False)
        (a_node 10 0 10 (fresh_segment 10 0))
   \<and> CanUseGlobalCache (configure default_settings 500 False False)
        (a_node 10 400 10 line_segment)
   \<and> outcome (PfCalcCost (Suc (Suc (Suc 0))) line_world
        (configure default_settings 500 False False)
        yapf0 (a_node 10 400 10 line_segment) (step_to 10))
      = Some (True, 700, 0, 300, 0, [DeadEnd, Depot])
   \<and> outcome (PfCalcCost (Suc (Suc (Suc 0))) line_world
        (configure default_settings 500 False False)
        yapf0 (a_node 10 400 10 (fresh_segment 10 0)) (step_to 10))
      = Some (False, 0, 0, 200, 0, [PathTooLong])"
  using line_fresh_stores line_cached_over_bound line_fresh_too_long
  by (simp add: CanUseGlobalCache_def configure_simps a_node_def default_settings_def)

end
